theory Spec2Isabelle
  imports Complex_Main "HOL-Library.AList"
begin

section \<open>Region Forge: geometry engine, YAML codec and project import\<close>

text \<open>
  A shallow embedding of the pure core of the region editor: the polygon routines of
  \<^verbatim>\<open>utils/polygonUtils.ts\<close>, the exporters and the project import of
  \<^verbatim>\<open>utils/exportUtils.ts\<close> (the module that defines \<^verbatim>\<open>generateAchievementsYAML\<close>,
  \<^verbatim>\<open>generateLevelledMobsRulesYAML\<close> and \<^verbatim>\<open>importMapData\<close>), the village block of
  \<^verbatim>\<open>utils/villageUtils.ts\<close> and the spawn checkbox handler of
  \<^verbatim>\<open>components/AdvancedPanel.tsx\<close>.

  Numbers. A JavaScript number is modelled by a real, and \<^verbatim>\<open>NaN\<close> and the infinities
  do not exist. Where a result depends only on comparisons and on the order of list
  elements, the arithmetic is exact, and every concrete input evaluated there uses
  small integers and dyadic fractions, on which IEEE 754 double arithmetic gives the
  same values. Where a property is an exact equation between coordinates that the code
  computes (\<^verbatim>\<open>resizeRegionPoints\<close>, \<^verbatim>\<open>findClosestPointOnPolygonEdge\<close>), the rounding of
  each operation is part of the model.

  Strings. A string is a list of 8-bit characters holding the UTF-8 encoding of the
  JavaScript string; only ASCII letters change case and only ASCII white space is
  white space.
\<close>

subsection \<open>Points\<close>

text \<open>
  \<^verbatim>\<open>{ x: number; z: number }\<close>. The fields are called \<open>px\<close> and \<open>pz\<close> so that
  \<open>x\<close> and \<open>z\<close> stay available as variables.
\<close>

record Point =
  px :: real
  pz :: real

abbreviation Pt :: "real \<Rightarrow> real \<Rightarrow> Point" where
  "Pt a b \<equiv> \<lparr>px = a, pz = b\<rparr>"

subsection \<open>splitPolygon\<close>

text \<open>
  The two \<^verbatim>\<open>for\<close> loops push every point to \<^verbatim>\<open>leftPoints\<close> or to
  \<^verbatim>\<open>rightPoints\<close>, in order: a \<open>partition\<close>. The returned two-element array is a
  pair. The vertical branch returns its partition at once; only the general branch
  reaches the check on the sizes of the halves.
\<close>

definition splitPolygon :: "Point list \<Rightarrow> Point \<Rightarrow> Point \<Rightarrow> Point list \<times> Point list" where
  "splitPolygon points splitPoint1 splitPoint2 =
    (if length points < 3 then (points, [])
     else
       let dx = px splitPoint2 - px splitPoint1;
           dz = pz splitPoint2 - pz splitPoint1
       in if \<bar>dx\<bar> < 1 / 10 ^ 10 then
            (let xLine = px splitPoint1
             in partition (\<lambda>point. px point \<le> xLine) points)
          else
            (let a = dz;
                 b = - dx;
                 c = - (a * px splitPoint1 + b * pz splitPoint1);
                 halves = partition (\<lambda>point. a * px point + b * pz point + c \<le> 0) points
             in if length (fst halves) < 3 \<or> length (snd halves) < 3 then (points, [])
                else halves))"

text \<open>
  On a split line that is not vertical, a half of fewer than three points rejects
  the split whole.
\<close>

lemma splitPolygon_general_rejects:
  assumes "\<not> \<bar>px s2 - px s1\<bar> < 1 / 10 ^ 10"
    and "splitPolygon points s1 s2 = (l, r)"
    and "(l, r) \<noteq> (points, [])"
  shows "3 \<le> length l \<and> 3 \<le> length r"
  using assms
  by (auto simp: splitPolygon_def Let_def split: if_splits)

text \<open>
  C1. The claim: whenever a half would have fewer than three points, the result is
  the original list and the empty list, on vertical split lines too. On the square
  \<open>(0,0), (10,0), (10,10), (0,10)\<close> split by the vertical line through \<open>(5,0)\<close> and
  \<open>(5,10)\<close> both halves have two points, and the code returns these two halves.
\<close>

theorem splitPolygon_vertical_returns_short_halves:
  "splitPolygon [Pt 0 0, Pt 10 0, Pt 10 10, Pt 0 10] (Pt 5 0) (Pt 5 10)
     = ([Pt 0 0, Pt 0 10], [Pt 10 0, Pt 10 10])"
  by (simp add: splitPolygon_def)

subsection \<open>doublePolygonVertices and halvePolygonVertices\<close>

text \<open>
  The loop of \<^verbatim>\<open>doublePolygonVertices\<close> pushes, for each index \<open>i\<close>, the vertex
  \<open>a = points[i]\<close> and then the midpoint of \<open>a\<close> and \<open>points[(i + 1) % length]\<close>.
\<close>

definition doublePolygonVertices :: "Point list \<Rightarrow> Point list" where
  "doublePolygonVertices points =
    (if length points < 2 then points
     else concat (map (\<lambda>i.
            let a = points ! i;
                b = points ! ((i + 1) mod length points)
            in [a, Pt ((px a + px b) / 2) ((pz a + pz b) / 2)])
          [0..<length points]))"

text \<open>
  \<^verbatim>\<open>halvePolygonVertices\<close> keeps the vertices of even index; when fewer than three
  remain it pushes \<open>points[(2 * i + 1) % length]\<close> for \<open>i\<close> below the number needed.
\<close>

definition halvePolygonVertices :: "Point list \<Rightarrow> Point list" where
  "halvePolygonVertices points =
    (if length points \<le> 3 then points
     else
       let kept = map (\<lambda>i. points ! i) (filter (\<lambda>i. i mod 2 = 0) [0..<length points])
       in if length kept < 3 then
            (let needed = 3 - length kept
             in kept @ map (\<lambda>i. points ! ((2 * i + 1) mod length points)) [0..<needed])
          else kept)"

lemma even_indices_upto: "filter (\<lambda>i. i mod 2 = 0) [0..<2 * n] = map (\<lambda>k. 2 * k) [0..<n]"
  by (induction n) auto

lemma length_concat_pairs: "length (concat (map (\<lambda>i. [f i, g i]) xs)) = 2 * length xs"
  by (induction xs) auto

lemma nth_concat_pairs_even:
  "k < length xs \<Longrightarrow> concat (map (\<lambda>i. [f i, g i]) xs) ! (2 * k) = f (xs ! k)"
proof (induction xs arbitrary: k)
  case Nil
  then show ?case by simp
next
  case (Cons a xs)
  show ?case
  proof (cases k)
    case 0
    then show ?thesis by simp
  next
    case (Suc j)
    with Cons show ?thesis by simp
  qed
qed

lemma length_double: "2 \<le> length ps \<Longrightarrow> length (doublePolygonVertices ps) = 2 * length ps"
  by (simp add: doublePolygonVertices_def Let_def length_concat_pairs)

lemma nth_double_even:
  "2 \<le> length ps \<Longrightarrow> k < length ps \<Longrightarrow> doublePolygonVertices ps ! (2 * k) = ps ! k"
  using nth_concat_pairs_even [of k "[0..<length ps]" "\<lambda>i. ps ! i"]
  by (simp add: doublePolygonVertices_def Let_def)

lemma halve_example_backfill:
  "halvePolygonVertices [Pt 0 0, Pt 4 0, Pt 0 4, Pt 1 1] = [Pt 0 0, Pt 0 4, Pt 4 0]"
  by (simp add: halvePolygonVertices_def upt_rec)

text \<open>
  C6. Doubling and then halving a polygon of \<open>N \<ge> 3\<close> vertices gives the polygon
  back: the result has \<open>N\<close> vertices and its \<open>i\<close>-th vertex is the \<open>i\<close>-th vertex
  of the input (the two lists are equal). The vertices kept are the ones
  \<^verbatim>\<open>doublePolygonVertices\<close> pushed unchanged, so no arithmetic is involved.
\<close>

theorem halve_double_roundtrip:
  assumes "3 \<le> length ps"
  shows "length (halvePolygonVertices (doublePolygonVertices ps)) = length ps
       \<and> halvePolygonVertices (doublePolygonVertices ps) = ps"
proof -
  let ?d = "doublePolygonVertices ps"
  have len: "length ?d = 2 * length ps" using assms by (simp add: length_double)
  have kept: "map (\<lambda>i. ?d ! i) (filter (\<lambda>i. i mod 2 = 0) [0..<length ?d]) = ps"
  proof -
    have "map (\<lambda>i. ?d ! i) (filter (\<lambda>i. i mod 2 = 0) [0..<length ?d])
        = map (\<lambda>k. ?d ! (2 * k)) [0..<length ps]"
      by (simp add: len even_indices_upto o_def)
    also have "\<dots> = map (\<lambda>k. ps ! k) [0..<length ps]"
      using assms by (intro map_cong refl) (simp add: nth_double_even)
    also have "\<dots> = ps" by (rule map_nth)
    finally show ?thesis .
  qed
  have "halvePolygonVertices ?d = ps"
    using assms len kept by (simp add: halvePolygonVertices_def Let_def)
  then show ?thesis by simp
qed

theorem halve_double_roundtrip_witness:
  "(3::nat) \<le> length [Pt 0 0, Pt 4 0, Pt 0 4]
   \<and> halvePolygonVertices (doublePolygonVertices [Pt 0 0, Pt 4 0, Pt 0 4])
       = [Pt 0 0, Pt 4 0, Pt 0 4]"
  using halve_double_roundtrip [of "[Pt 0 0, Pt 4 0, Pt 0 4]"] by simp

subsection \<open>simplifyPolygonVertices\<close>

text \<open>\<^verbatim>\<open>Math.hypot\<close> of two arguments.\<close>

definition hypot :: "real \<Rightarrow> real \<Rightarrow> real" where
  "hypot a b = sqrt (a * a + b * b)"

definition perpendicularDistance :: "Point \<Rightarrow> Point \<Rightarrow> Point \<Rightarrow> real" where
  "perpendicularDistance p a b =
    (let dx = px b - px a;
         dz = pz b - pz a
     in if dx = 0 \<and> dz = 0 then hypot (px p - px a) (pz p - pz a)
        else
          let t = ((px p - px a) * dx + (pz p - pz a) * dz) / (dx * dx + dz * dz);
              projX = px a + t * dx;
              projZ = pz a + t * dz
          in hypot (px p - projX) (pz p - projZ))"

text \<open>
  The \<^verbatim>\<open>for\<close> loop of \<^verbatim>\<open>rdp\<close>: the largest distance so far and its index, from
  \<open>(0, -1)\<close>; the index \<open>-1\<close> is \<open>None\<close>. The loop is only entered for indices
  inside the array, so \<open>pts ! i\<close> is always a vertex.
\<close>

definition rdp_farthest :: "Point list \<Rightarrow> nat \<Rightarrow> nat \<Rightarrow> real \<times> nat option" where
  "rdp_farthest pts first lastI =
    fold (\<lambda>i (maxDist, index).
            let d = perpendicularDistance (pts ! i) (pts ! first) (pts ! lastI)
            in if d > maxDist then (d, Some i) else (maxDist, index))
         [first + 1..<lastI] (0, None)"

lemma fold_farthest_index:
  "snd (fold (\<lambda>i (maxDist, index).
            let d = f i in if d > maxDist then (d, Some i) else (maxDist, index)) xs (m, idx)) = Some k
   \<Longrightarrow> k \<in> set xs \<or> idx = Some k"
  by (induction xs arbitrary: m idx) (auto simp: Let_def split: if_splits)

lemma rdp_farthest_between:
  assumes "rdp_farthest pts first lastI = (m, Some k)"
  shows "first < k \<and> k < lastI"
proof -
  have "k \<in> set [first + 1..<lastI] \<or> (None :: nat option) = Some k"
    using assms unfolding rdp_farthest_def
    by (intro fold_farthest_index [where m = 0 and f = "\<lambda>i. perpendicularDistance (pts ! i) (pts ! first) (pts ! lastI)"]) simp
  then show ?thesis by auto
qed

text \<open>
  \<^verbatim>\<open>rdp\<close> mutates the array \<^verbatim>\<open>keep\<close>; here it takes the array and returns it
  updated, and the second recursive call runs on the result of the first.
\<close>

function rdp :: "real \<Rightarrow> Point list \<Rightarrow> nat \<Rightarrow> nat \<Rightarrow> bool list \<Rightarrow> bool list" where
  "rdp eps pts first lastI keep =
    (case rdp_farthest pts first lastI of
       (maxDist, None) \<Rightarrow> keep
     | (maxDist, Some index) \<Rightarrow>
         if maxDist > eps then
           rdp eps pts index lastI (rdp eps pts first index (keep[index := True]))
         else keep)"
  by pat_completeness auto
termination
  by (relation "measure (\<lambda>(eps, pts, first, lastI, keep). lastI - first)")
     (auto dest: rdp_farthest_between [OF sym])

declare rdp.simps [simp del]

text \<open>
  The body of \<^verbatim>\<open>simplifyPolygonVertices\<close> up to the list \<^verbatim>\<open>simplified\<close>, that is
  \<^verbatim>\<open>open.filter((_, i) => keepFlags[i])\<close> (\<open>opn\<close> is the copy \<^verbatim>\<open>open\<close>), and then
  the function itself with its fallback to the input.
\<close>

definition rdpSimplified :: "Point list \<Rightarrow> real \<Rightarrow> Point list" where
  "rdpSimplified points tolerance =
    (let eps = max 0 tolerance;
         opn = points;
         keepFlags = (replicate (length opn) False)[0 := True, length opn - 1 := True];
         kept = rdp eps opn 0 (length opn - 1) keepFlags
     in map (\<lambda>i. opn ! i) (filter (\<lambda>i. kept ! i) [0..<length opn]))"

definition simplifyPolygonVertices :: "Point list \<Rightarrow> real \<Rightarrow> Point list" where
  "simplifyPolygonVertices points tolerance =
    (if length points \<le> 3 then points
     else
       let simplified = rdpSimplified points tolerance
       in if length simplified < 3 then points else simplified)"


text \<open>Flags are only ever set, and the array keeps its length.\<close>

lemma length_rdp: "length (rdp eps pts first lastI keep) = length keep"
proof (induction eps pts first lastI keep rule: rdp.induct)
  case (1 eps pts first lastI keep)
  show ?case
    by (subst rdp.simps) (auto split: prod.splits option.splits simp: 1 [OF sym])
qed

lemma rdp_extensive: "keep ! j \<Longrightarrow> rdp eps pts first lastI keep ! j"
proof (induction eps pts first lastI keep rule: rdp.induct)
  case (1 eps pts first lastI keep)
  show ?case
  proof (cases "rdp_farthest pts first lastI")
    case (Pair m idx)
    show ?thesis
    proof (cases idx)
      case None
      with Pair 1 show ?thesis by (subst rdp.simps) simp
    next
      case (Some i)
      show ?thesis
      proof (cases "eps < m")
        case True
        have a: "keep[i := True] ! j"
          using "1.prems" by (cases "i < length keep") (auto simp: nth_list_update list_update_beyond)
        have b: "rdp eps pts first i (keep[i := True]) ! j"
          using "1.IH"(1) [OF Pair [symmetric] Some True a] .
        have "rdp eps pts i lastI (rdp eps pts first i (keep[i := True])) ! j"
          using "1.IH"(2) [OF Pair [symmetric] Some True b] .
        with Pair Some True show ?thesis by (subst rdp.simps) simp
      next
        case False
        with Pair Some 1 show ?thesis by (subst rdp.simps) simp
      qed
    qed
  qed
qed

text \<open>
  The vertex of largest deviation does not depend on the tolerance, so a larger
  tolerance prunes the recursion of a smaller one: every flag set at \<open>eps2\<close> is set
  at \<open>eps1 \<le> eps2\<close>.
\<close>

lemma rdp_antitone:
  "eps1 \<le> eps2 \<Longrightarrow> (\<And>j. k2 ! j \<Longrightarrow> k1 ! j) \<Longrightarrow> length k1 = length k2
   \<Longrightarrow> rdp eps2 pts first lastI k2 ! j \<Longrightarrow> rdp eps1 pts first lastI k1 ! j"
proof (induction eps2 pts first lastI k2 arbitrary: k1 j rule: rdp.induct)
  case (1 eps2 pts first lastI k2)
  show ?case
  proof (cases "rdp_farthest pts first lastI")
    case (Pair m idx)
    show ?thesis
    proof (cases idx)
      case None
      with Pair "1.prems" show ?thesis by (subst rdp.simps, subst (asm) rdp.simps) simp
    next
      case (Some i)
      have upd: "k1[i := True] ! j" if "k2[i := True] ! j" for j
        using that "1.prems"(2,3)
        by (cases "i < length k2") (auto simp: nth_list_update list_update_beyond split: if_splits)
      show ?thesis
      proof (cases "eps2 < m")
        case True
        then have True1: "eps1 < m" using "1.prems"(1) by simp
        have len1: "length (k1[i := True]) = length (k2[i := True])"
          using "1.prems"(3) by simp
        have step1: "\<And>j. rdp eps2 pts first i (k2[i := True]) ! j
              \<Longrightarrow> rdp eps1 pts first i (k1[i := True]) ! j"
          using "1.IH"(1) [OF Pair [symmetric] Some True "1.prems"(1) upd len1] .
        have len2: "length (rdp eps1 pts first i (k1[i := True]))
              = length (rdp eps2 pts first i (k2[i := True]))"
          using len1 by (simp add: length_rdp)
        have "rdp eps2 pts i lastI (rdp eps2 pts first i (k2[i := True])) ! j"
          using "1.prems"(4) Pair Some True by (subst (asm) rdp.simps) simp
        then have "rdp eps1 pts i lastI (rdp eps1 pts first i (k1[i := True])) ! j"
          using "1.IH"(2) [OF Pair [symmetric] Some True "1.prems"(1) step1 len2] by simp
        with Pair Some True1 show ?thesis by (subst rdp.simps) simp
      next
        case False
        then have "k2 ! j" using "1.prems"(4) Pair Some by (subst (asm) rdp.simps) simp
        then have "k1 ! j" using "1.prems"(2) by simp
        then show ?thesis by (rule rdp_extensive)
      qed
    qed
  qed
qed

lemma length_filter_mono:
  "(\<And>x. x \<in> set xs \<Longrightarrow> P x \<Longrightarrow> Q x) \<Longrightarrow> length (filter P xs) \<le> length (filter Q xs)"
  by (induction xs) auto

lemma rdpSimplified_antitone:
  assumes "t1 \<le> t2"
  shows "length (rdpSimplified points t2) \<le> length (rdpSimplified points t1)"
proof -
  let ?ini = "(replicate (length points) False)[0 := True, length points - 1 := True]"
  have "rdp (max 0 t1) points 0 (length points - 1) ?ini ! j"
    if "rdp (max 0 t2) points 0 (length points - 1) ?ini ! j" for j
    using rdp_antitone [of "max 0 t1" "max 0 t2" ?ini ?ini points 0 "length points - 1" j] assms that
    by simp
  then show ?thesis
    by (simp add: rdpSimplified_def Let_def length_filter_mono)
qed

lemma simplify_antitone_unless_fallback:
  assumes "t1 \<le> t2" and "3 \<le> length (rdpSimplified points t2)"
  shows "length (simplifyPolygonVertices points t2) \<le> length (simplifyPolygonVertices points t1)"
proof (cases "length points \<le> 3")
  case True
  then show ?thesis by (simp add: simplifyPolygonVertices_def)
next
  case False
  have "3 \<le> length (rdpSimplified points t1)"
    using rdpSimplified_antitone [OF assms(1), of points] assms(2) by simp
  with False assms(2) rdpSimplified_antitone [OF assms(1), of points]
  show ?thesis by (simp add: simplifyPolygonVertices_def Let_def)
qed

lemma rdpSimplified_endpoints:
  assumes "3 < length points"
  shows "hd (rdpSimplified points t) = hd points \<and> last (rdpSimplified points t) = last points"
proof -
  let ?n = "length points"
  let ?ini = "(replicate ?n False)[0 := True, ?n - 1 := True]"
  let ?k = "rdp (max 0 t) points 0 (?n - 1) ?ini"
  have ne: "points \<noteq> []" using assms by auto
  have k0: "?ini ! 0" "?ini ! (?n - 1)" using assms ne by (auto simp: nth_list_update)
  have kf: "?k ! 0" by (rule rdp_extensive) (rule k0(1))
  have kl: "?k ! (?n - 1)" by (rule rdp_extensive) (rule k0(2))
  have up1: "[0..<?n] = 0 # [1..<?n]" using ne by (simp add: upt_conv_Cons)
  have "[0..<Suc (?n - 1)] = [0..<?n - 1] @ [?n - 1]" by simp
  then have up2: "[0..<?n] = [0..<?n - 1] @ [?n - 1]" using ne by simp
  have "hd (rdpSimplified points t) = points ! 0"
    unfolding rdpSimplified_def Let_def by (subst up1) (use kf in simp)
  moreover have "last (rdpSimplified points t) = points ! (?n - 1)"
    unfolding rdpSimplified_def Let_def by (subst up2) (use kl in simp)
  ultimately show ?thesis using ne by (simp add: hd_conv_nth last_conv_nth)
qed

lemma simplify_endpoints:
  assumes "3 < length points"
  shows "hd (simplifyPolygonVertices points t) = hd points
       \<and> last (simplifyPolygonVertices points t) = last points"
  using rdpSimplified_endpoints [OF assms, of t]
  by (simp add: simplifyPolygonVertices_def Let_def)

lemma simplify_three_or_input:
  "3 \<le> length (simplifyPolygonVertices points t) \<or> simplifyPolygonVertices points t = points"
  by (simp add: simplifyPolygonVertices_def Let_def)

text \<open>
  A polygon on which the simplification keeps three vertices at tolerance 1 and two at
  tolerance 3. All distances computed on it are 0, 1 or 2.
\<close>

lemma hypot_0 [simp]: "hypot 0 b = \<bar>b\<bar>"
  by (simp add: hypot_def)

definition kite :: "Point list" where
  "kite = [Pt 0 0, Pt 2 1, Pt 4 2, Pt 8 0]"

lemma far03: "rdp_farthest kite 0 3 = (2, Some 2)"
  by (simp add: rdp_farthest_def kite_def perpendicularDistance_def upt_rec Let_def)
lemma far02: "rdp_farthest kite 0 2 = (0, None)"
  by (simp add: rdp_farthest_def kite_def perpendicularDistance_def upt_rec Let_def)
lemma far23: "rdp_farthest kite 2 3 = (0, None)"
  by (simp add: rdp_farthest_def kite_def perpendicularDistance_def upt_rec Let_def)

lemma length_kite: "length kite = 4"
  by (simp add: kite_def)

lemma kite_flags0: "(replicate 4 False)[0 := True, 3 := True] = [True, False, False, True]"
  by (simp add: numeral_eq_Suc)

lemma upt_0_4: "[0..<4] = [0, 1, 2, 3]"
  by (simp add: upt_rec)

lemma kite_rdp_1: "rdp 1 kite 0 3 [True, False, False, True] = [True, False, True, True]"
  by (simp add: rdp.simps [of _ kite 0 3] rdp.simps [of _ kite 0 2] rdp.simps [of _ kite 2 3]
      far03 far02 far23)

lemma kite_rdp_3: "rdp 3 kite 0 3 [True, False, False, True] = [True, False, False, True]"
  by (simp add: rdp.simps [of _ kite 0 3] far03)

lemma kite_simplified_1: "rdpSimplified kite 1 = [Pt 0 0, Pt 4 2, Pt 8 0]"
  by (simp add: rdpSimplified_def length_kite kite_flags0 upt_0_4 kite_rdp_1) (simp add: kite_def)

lemma kite_simplified_3: "rdpSimplified kite 3 = [Pt 0 0, Pt 8 0]"
  by (simp add: rdpSimplified_def length_kite kite_flags0 upt_0_4 kite_rdp_3) (simp add: kite_def)

text \<open>
  C4, as stated, fails: the vertex count is not monotone in the tolerance. At
  tolerance 1 the polygon \<open>kite\<close> is simplified to three vertices; at tolerance 3
  only the two end points are kept, the check \<^verbatim>\<open>simplified.length < 3\<close> returns the
  input, and the result has four vertices.
\<close>

theorem simplify_not_monotone:
  "(1::real) \<le> 3
   \<and> simplifyPolygonVertices kite 1 = [Pt 0 0, Pt 4 2, Pt 8 0]
   \<and> simplifyPolygonVertices kite 3 = [Pt 0 0, Pt 2 1, Pt 4 2, Pt 8 0]
   \<and> \<not> length (simplifyPolygonVertices kite 3) \<le> length (simplifyPolygonVertices kite 1)"
  by (simp add: simplifyPolygonVertices_def length_kite kite_simplified_1 kite_simplified_3)
     (simp add: kite_def)

text \<open>
  C4, amended. For \<open>t1 \<le> t2\<close> the number of vertices the simplification keeps (the
  list \<^verbatim>\<open>simplified\<close>) at \<open>t2\<close> is at most the number kept at \<open>t1\<close>, and whenever
  at least three vertices are kept at \<open>t2\<close>, so that the fallback to the input is
  not taken, the result for \<open>t2\<close> has at most as many vertices as the result for
  \<open>t1\<close>. For a polygon of more than three points the result starts with the first
  point and ends with the last point of the input, at tolerance 0 and at every other
  tolerance. The result has at least three points or is the input.
\<close>

theorem simplify_tolerance:
  "(t1 \<le> t2 \<longrightarrow> length (rdpSimplified points t2) \<le> length (rdpSimplified points t1))
   \<and> (t1 \<le> t2 \<and> 3 \<le> length (rdpSimplified points t2) \<longrightarrow>
        length (simplifyPolygonVertices points t2) \<le> length (simplifyPolygonVertices points t1))
   \<and> (3 < length points \<longrightarrow>
        hd (simplifyPolygonVertices points 0) = hd points
        \<and> last (simplifyPolygonVertices points 0) = last points
        \<and> hd (simplifyPolygonVertices points t) = hd points
        \<and> last (simplifyPolygonVertices points t) = last points)
   \<and> (3 \<le> length (simplifyPolygonVertices points t) \<or> simplifyPolygonVertices points t = points)"
  using rdpSimplified_antitone [of t1 t2 points]
    simplify_antitone_unless_fallback [of t1 t2 points]
    simplify_endpoints [of points 0] simplify_endpoints [of points t]
    simplify_three_or_input [of points t]
  by blast

lemma kite_rdp_0: "rdp 0 kite 0 3 [True, False, False, True] = [True, False, True, True]"
  by (simp add: rdp.simps [of _ kite 0 3] rdp.simps [of _ kite 0 2] rdp.simps [of _ kite 2 3]
      far03 far02 far23)

lemma kite_simplified_0: "rdpSimplified kite 0 = [Pt 0 0, Pt 4 2, Pt 8 0]"
  by (simp add: rdpSimplified_def length_kite kite_flags0 upt_0_4 kite_rdp_0)
     (simp add: kite_def)

theorem simplify_tolerance_witness:
  "(0::real) \<le> 1
   \<and> 3 \<le> length (rdpSimplified kite 1)
   \<and> length (rdpSimplified kite 1) \<le> length (rdpSimplified kite 0)
   \<and> length (simplifyPolygonVertices kite 1) \<le> length (simplifyPolygonVertices kite 0)
   \<and> 3 < length kite
   \<and> hd (simplifyPolygonVertices kite 0) = hd kite
   \<and> last (simplifyPolygonVertices kite 0) = last kite
   \<and> hd (simplifyPolygonVertices kite 1) = hd kite
   \<and> last (simplifyPolygonVertices kite 1) = last kite
   \<and> 3 \<le> length (simplifyPolygonVertices kite 1)"
  using simplify_tolerance [of 0 1 kite 1]
  by (simp add: kite_simplified_1 kite_simplified_0 length_kite simplifyPolygonVertices_def)

subsection \<open>Double arithmetic\<close>

text \<open>
  Two functions below, \<^verbatim>\<open>resizeRegionPoints\<close> and \<^verbatim>\<open>findClosestPointOnPolygonEdge\<close>,
  are said to return coordinates that satisfy an exact equation. Whether they do
  depends on the arithmetic, so these two take the rounding of the arithmetic as their
  first argument \<open>rnd\<close>: the result of an operation is \<open>rnd\<close> of the exact result.
  \<open>exactArith\<close> rounds nothing. \<open>fl\<close> is the rounding of IEEE 754 binary64, to the
  nearest double, ties to the even significand: in the binade
  \<open>2^e \<le> |r| < 2^(e+1)\<close> the doubles are the multiples of \<open>2^(e-52)\<close>, and below
  \<open>2^(-1022)\<close> the multiples of \<open>2^(-1074)\<close>. Overflow to an infinity is not
  modelled. A real \<open>r\<close> is a double when \<open>fl r = r\<close>. \<^verbatim>\<open>Math.hypot\<close> is taken as
  correctly rounded; on an argument pair \<open>(a, 0)\<close> it is \<open>|a|\<close> in any case.
\<close>

type_synonym rounding = "real \<Rightarrow> real"

definition exactArith :: rounding where
  "exactArith r = r"

definition round_half_even :: "real \<Rightarrow> int" where
  "round_half_even r =
    (let f = \<lfloor>r\<rfloor>
     in if r - of_int f < 1 / 2 then f
        else if 1 / 2 < r - of_int f then f + 1
        else if even f then f else f + 1)"

definition ulp :: "real \<Rightarrow> real" where
  "ulp r = 2 powr of_int (max \<lfloor>log 2 \<bar>r\<bar>\<rfloor> (- 1022) - 52)"

definition fl :: rounding where
  "fl r = (if r = 0 then 0 else of_int (round_half_even (r / ulp r)) * ulp r)"


lemma round_half_even_of_int [simp]: "round_half_even (of_int k) = k"
  by (simp add: round_half_even_def)

lemma ulp_binade:
  assumes "2 ^ n \<le> \<bar>r\<bar>" and "\<bar>r\<bar> < 2 ^ Suc n"
  shows "ulp r = 2 powr (of_int (int n - 52))"
proof -
  have "(0::real) < 2 ^ n" by simp
  then have pos: "0 < \<bar>r\<bar>" using assms(1) by linarith
  have "\<lfloor>log 2 \<bar>r\<bar>\<rfloor> = int n"
    using assms pos by (simp add: floor_log_eq_powr_iff powr_realpow powr_add)
  then show ?thesis by (simp add: ulp_def)
qed

lemma round_half_even_numeral [simp]:
  "round_half_even (numeral k) = numeral k"
  "round_half_even (- numeral k) = - numeral k"
  using round_half_even_of_int [of "numeral k"] round_half_even_of_int [of "- numeral k"]
  by simp_all

lemma fl_0 [simp]: "fl 0 = 0"
  by (simp add: fl_def)

lemma fl_neg_2_54: "fl (- 18014398509481984) = - 18014398509481984"
proof -
  have "ulp (- 18014398509481984) = 2 powr (of_int (int 54 - 52))"
    by (rule ulp_binade) simp_all
  then have u: "ulp (- 18014398509481984) = 4" by simp
  show ?thesis by (simp add: fl_def u)
qed

lemma fl_neg_2_54_plus_1: "fl (- 18014398509481983) = - 18014398509481984"
proof -
  have "ulp (- 18014398509481983) = 2 powr (of_int (int 53 - 52))"
    by (rule ulp_binade) simp_all
  then have u: "ulp (- 18014398509481983) = 2" by simp
  have f: "\<lfloor>(- 18014398509481983 :: real) / 2\<rfloor> = - 9007199254740992" by simp
  have "round_half_even (- 18014398509481983 / 2) = - 9007199254740992"
    by (simp add: round_half_even_def f Let_def)
  then show ?thesis by (simp add: fl_def u)
qed

text \<open>Integers up to \<open>2^53\<close> in magnitude are doubles.\<close>

lemma ulp_pos: "0 < ulp r"
  by (simp add: ulp_def)

lemma fl_exact_if_multiple:
  assumes "r / ulp r = of_int m"
  shows "fl r = r"
proof (cases "r = 0")
  case True
  then show ?thesis by simp
next
  case False
  have "fl r = of_int (round_half_even (of_int m)) * ulp r"
    using False assms by (simp add: fl_def)
  also have "\<dots> = (r / ulp r) * ulp r" by (simp add: assms)
  also have "\<dots> = r" using ulp_pos [of r] by simp
  finally show ?thesis .
qed

lemma fl_of_int:
  assumes "\<bar>k\<bar> \<le> 2 ^ 53"
  shows "fl (of_int k) = of_int k"
proof (cases "k = 0")
  case True
  then show ?thesis by simp
next
  case False
  define a :: real where "a = \<bar>of_int k\<bar>"
  define e where "e = \<lfloor>log 2 a\<rfloor>"
  have a1: "1 \<le> a" using False by (simp add: a_def)
  have a2: "a \<le> 2 ^ 53"
  proof -
    have "a = of_int \<bar>k\<bar>" by (simp add: a_def)
    also have "\<dots> \<le> of_int (2 ^ 53)" using assms by (simp only: of_int_le_iff)
    finally show ?thesis by simp
  qed
  have e0: "0 \<le> e" using a1 by (simp add: e_def)
  have l53: "log 2 (2 ^ 53) = (53::real)" using log_pow_cancel [of 2 53] by simp
  have "log 2 a \<le> log 2 (2 ^ 53)" using a1 a2 by simp
  then have "log 2 a \<le> 53" using l53 by simp
  then have e53: "e \<le> 53" by (simp add: e_def floor_le_iff)
  have bounds: "2 powr of_int e \<le> a"
    using a1 floor_log_eq_powr_iff [of a 2 e] by (simp add: e_def)
  have u: "ulp (of_int k) = 2 powr of_int (e - 52)"
    using e0 by (simp add: ulp_def e_def a_def)
  show ?thesis
  proof (cases "e = 53")
    case True
    then have "2 ^ 53 \<le> a" using bounds by simp
    with a2 have "a = 2 ^ 53" by simp
    then have "(of_int k :: real) = 2 ^ 53 \<or> (of_int k :: real) = - (2 ^ 53)"
      unfolding a_def by (simp add: abs_if split: if_splits)
    moreover have "ulp (of_int k) = 2" using u True by simp
    ultimately have "(of_int k :: real) / ulp (of_int k) = of_int (2 ^ 52)
        \<or> (of_int k :: real) / ulp (of_int k) = of_int (- (2 ^ 52))"
      by auto
    then show ?thesis using fl_exact_if_multiple by blast
  next
    case False
    then have le: "e \<le> 52" using e53 by simp
    define n where "n = nat (52 - e)"
    have "of_int (e - 52) = - real n" using le by (simp add: n_def)
    then have "ulp (of_int k) = 1 / 2 ^ n"
      using u by (simp add: powr_minus powr_realpow inverse_eq_divide)
    then have "(of_int k :: real) / ulp (of_int k) = of_int (k * 2 ^ n)" by simp
    then show ?thesis by (rule fl_exact_if_multiple)
  qed
qed

subsection \<open>resizeRegionPoints\<close>

definition resizeRegionPoints ::
  "rounding \<Rightarrow> Point list \<Rightarrow> real \<Rightarrow> real \<Rightarrow> real \<Rightarrow> Point list" where
  "resizeRegionPoints rnd points centerX centerZ scaleFactor =
    (if length points = 0 \<or> scaleFactor \<le> 0 then points
     else map (\<lambda>p.
            let offsetX = rnd (px p - centerX);
                offsetZ = rnd (pz p - centerZ);
                scaledOffsetX = rnd (offsetX * scaleFactor);
                scaledOffsetZ = rnd (offsetZ * scaleFactor)
            in Pt (rnd (centerX + scaledOffsetX)) (rnd (centerZ + scaledOffsetZ)))
          points)"

text \<open>
  C9, as stated, fails at scale 1 in double arithmetic: for the point \<open>(1, 0)\<close> and the centre
  \<open>(2^54, 0)\<close> the difference \<open>1 - 2^54\<close> is not a double and rounds to \<open>-2^54\<close>,
  and the function returns the point \<open>(0, 0)\<close>.
\<close>

theorem resize_scale_1_rounds:
  "resizeRegionPoints fl [Pt 1 0] 18014398509481984 0 1 = [Pt 0 0]"
  by (simp add: resizeRegionPoints_def fl_neg_2_54_plus_1 fl_neg_2_54)


definition smallInt :: "real \<Rightarrow> bool" where
  "smallInt r = (\<exists>k::int. r = of_int k \<and> \<bar>k\<bar> \<le> 2 ^ 52)"

lemma smallInt_fl: "smallInt a \<Longrightarrow> fl a = a"
  unfolding smallInt_def using fl_of_int by force

lemma smallInt_diff_fl:
  assumes "smallInt a" and "smallInt b"
  shows "fl (a - b) = a - b"
proof -
  from assms obtain k l :: int
    where k: "a = of_int k" "\<bar>k\<bar> \<le> 2 ^ 52" and l: "b = of_int l" "\<bar>l\<bar> \<le> 2 ^ 52"
    unfolding smallInt_def by blast
  have "\<bar>k - l\<bar> \<le> 2 ^ 53" using k(2) l(2) by simp
  then have "fl (of_int (k - l)) = of_int (k - l)" by (rule fl_of_int)
  then show ?thesis by (simp add: k(1) l(1))
qed

lemma resize_scale_1_if_exact:
  assumes "\<And>p. p \<in> set points \<Longrightarrow>
      rnd (px p - centerX) = px p - centerX \<and> rnd (pz p - centerZ) = pz p - centerZ
      \<and> rnd (px p) = px p \<and> rnd (pz p) = pz p"
  shows "resizeRegionPoints rnd points centerX centerZ 1 = points"
proof -
  have "map (\<lambda>p. Pt (rnd (centerX + rnd (rnd (px p - centerX) * 1)))
                     (rnd (centerZ + rnd (rnd (pz p - centerZ) * 1)))) points
        = map (\<lambda>p. p) points"
    by (rule map_cong [OF refl]) (simp add: assms)
  then show ?thesis
    by (simp add: resizeRegionPoints_def Let_def)
qed

lemma resize_guard: "s \<le> 0 \<Longrightarrow> resizeRegionPoints rnd points centerX centerZ s = points"
  by (simp add: resizeRegionPoints_def)

text \<open>
  C9, amended. At every scale factor \<open>s \<le> 0\<close> the function returns its input
  unchanged, in any arithmetic. At scale 1 it returns its input in exact arithmetic;
  in double arithmetic it does so whenever, for every point, the two differences
  \<open>p.x - centerX\<close> and \<open>p.z - centerZ\<close> are computed without rounding, in particular
  when all coordinates and the centre are integers of magnitude at most \<open>2^52\<close>.
\<close>

theorem resize_identity_and_guard:
  "(s \<le> 0 \<longrightarrow> resizeRegionPoints rnd points centerX centerZ s = points)
   \<and> resizeRegionPoints exactArith points centerX centerZ 1 = points
   \<and> ((\<forall>p \<in> set points.
        fl (px p - centerX) = px p - centerX \<and> fl (pz p - centerZ) = pz p - centerZ
        \<and> fl (px p) = px p \<and> fl (pz p) = pz p)
      \<longrightarrow> resizeRegionPoints fl points centerX centerZ 1 = points)
   \<and> ((\<forall>p \<in> set points. smallInt (px p) \<and> smallInt (pz p)) \<and> smallInt centerX \<and> smallInt centerZ
      \<longrightarrow> resizeRegionPoints fl points centerX centerZ 1 = points)"
proof (intro conjI impI)
  assume "s \<le> 0"
  then show "resizeRegionPoints rnd points centerX centerZ s = points" by (rule resize_guard)
next
  show "resizeRegionPoints exactArith points centerX centerZ 1 = points"
    by (rule resize_scale_1_if_exact) (simp add: exactArith_def)
next
  assume "\<forall>p \<in> set points.
        fl (px p - centerX) = px p - centerX \<and> fl (pz p - centerZ) = pz p - centerZ
        \<and> fl (px p) = px p \<and> fl (pz p) = pz p"
  then show "resizeRegionPoints fl points centerX centerZ 1 = points"
    by (intro resize_scale_1_if_exact) blast
next
  assume a: "(\<forall>p \<in> set points. smallInt (px p) \<and> smallInt (pz p)) \<and> smallInt centerX \<and> smallInt centerZ"
  show "resizeRegionPoints fl points centerX centerZ 1 = points"
    by (rule resize_scale_1_if_exact) (use a in \<open>simp add: smallInt_fl smallInt_diff_fl\<close>)
qed

lemma smallInt_numeral [simp]: "numeral n \<le> (2::int) ^ 52 \<Longrightarrow> smallInt (numeral n)"
  unfolding smallInt_def by (rule exI [of _ "numeral n"]) simp

lemma smallInt_0_1 [simp]: "smallInt 0" "smallInt 1"
  unfolding smallInt_def by (rule exI [of _ 0], simp) (rule exI [of _ 1], simp)

theorem resize_identity_and_guard_witness:
  "smallInt 3 \<and> smallInt 4 \<and> smallInt 1 \<and> smallInt 2
   \<and> resizeRegionPoints fl [Pt 3 4] 1 2 1 = [Pt 3 4]
   \<and> resizeRegionPoints exactArith [Pt 3 4] 1 2 1 = [Pt 3 4]
   \<and> (- 1 :: real) \<le> 0
   \<and> resizeRegionPoints fl [Pt 3 4] 1 2 (- 1) = [Pt 3 4]"
  using resize_identity_and_guard [of "- 1" fl "[Pt 3 4]" 1 2]
  by simp

subsection \<open>findClosestPointOnPolygonEdge\<close>

text \<open>
  What a call can throw: a \<^verbatim>\<open>TypeError\<close> (a property read on \<^verbatim>\<open>undefined\<close> or
  \<^verbatim>\<open>null\<close>), the \<^verbatim>\<open>SyntaxError\<close> of \<^verbatim>\<open>JSON.parse\<close>, or an \<^verbatim>\<open>Error\<close> with its
  message.
\<close>

datatype error = TypeError | SyntaxError | Error string




























lemma fl_small_numeral [simp]:
  "numeral n \<le> (2::int) ^ 53 \<Longrightarrow> fl (numeral n) = numeral n"
  "numeral n \<le> (2::int) ^ 53 \<Longrightarrow> fl (- numeral n) = - numeral n"
  using fl_of_int [of "numeral n"] fl_of_int [of "- numeral n"] by simp_all

lemma fl_1 [simp]: "fl 1 = 1"
  using fl_of_int [of 1] by simp


















lemma hypot_0_right [simp]: "hypot a 0 = \<bar>a\<bar>"
  by (simp add: hypot_def)














subsection \<open>Strings\<close>

text \<open>
  \<^verbatim>\<open>toLowerCase\<close>, \<^verbatim>\<open>replace(/\s+/g, rep)\<close> (every maximal run of white space becomes
  one \<open>rep\<close>), \<^verbatim>\<open>replace(/\n/g, rep)\<close>, \<^verbatim>\<open>includes\<close>, \<^verbatim>\<open>Array.prototype.join\<close>, the
  decimal text of an integer as a template literal prints it, and \<^verbatim>\<open>Math.round\<close>
  (the nearest integer, halves upwards).
\<close>

definition toLowerCase :: "string \<Rightarrow> string" where
  "toLowerCase s =
    map (\<lambda>c. case map_of (zip ''ABCDEFGHIJKLMNOPQRSTUVWXYZ'' ''abcdefghijklmnopqrstuvwxyz'') c of
               Some l \<Rightarrow> l
             | None \<Rightarrow> c) s"

definition isWhiteSpace :: "char \<Rightarrow> bool" where
  "isWhiteSpace c = (c \<in> set [CHR '' '', CHR 0x09, CHR 0x0A, CHR 0x0B, CHR 0x0C, CHR 0x0D])"

function replaceWhiteSpace :: "string \<Rightarrow> string \<Rightarrow> string" where
  "replaceWhiteSpace rep [] = []"
| "replaceWhiteSpace rep (c # cs) =
    (if isWhiteSpace c then rep @ replaceWhiteSpace rep (dropWhile isWhiteSpace cs)
     else c # replaceWhiteSpace rep cs)"
  by pat_completeness auto
termination
  by (relation "measure (\<lambda>(rep, s). length s)")
     (auto simp: length_dropWhile_le less_Suc_eq_le)

definition replaceNewlines :: "string \<Rightarrow> string \<Rightarrow> string" where
  "replaceNewlines rep s = concat (map (\<lambda>c. if c = CHR 0x0A then rep else [c]) s)"

fun startsWith :: "string \<Rightarrow> string \<Rightarrow> bool" where
  "startsWith s [] = True"
| "startsWith [] (p # ps) = False"
| "startsWith (c # cs) (p # ps) = (c = p \<and> startsWith cs ps)"

fun includes_str :: "string \<Rightarrow> string \<Rightarrow> bool" where
  "includes_str [] sub = (sub = [])"
| "includes_str (c # cs) sub = (startsWith (c # cs) sub \<or> includes_str cs sub)"

fun join :: "string \<Rightarrow> string list \<Rightarrow> string" where
  "join sep [] = []"
| "join sep [s] = s"
| "join sep (s # t # ts) = s @ sep @ join sep (t # ts)"

function showNat :: "nat \<Rightarrow> string" where
  "showNat n = (if n < 10 then [''0123456789'' ! n] else showNat (n div 10) @ [''0123456789'' ! (n mod 10)])"
  by pat_completeness auto
termination
  by (relation "measure id") auto

declare showNat.simps [simp del]

declare replaceWhiteSpace.simps [simp del]

definition showInt :: "int \<Rightarrow> string" where
  "showInt i = (if i < 0 then ''-'' @ showNat (nat (- i)) else showNat (nat i))"

definition Math_round :: "real \<Rightarrow> int" where
  "Math_round r = \<lfloor>r + 1 / 2\<rfloor>"


subsection \<open>Data model\<close>

text \<open>
  Modelled from the spec: the types \<^verbatim>\<open>ChallengeLevel\<close>, \<^verbatim>\<open>Subregion\<close> and \<^verbatim>\<open>Region\<close>
  of \<^verbatim>\<open>types.ts\<close>, which is not among the sources. The fields are those of section 3
  of the specification, with the names the sources read them by. \<^verbatim>\<open>id\<close> is
  \<open>region_id\<close>, and the fields of a subregion carry the prefix \<open>sub_\<close>. An optional
  field is an \<open>option\<close>; an absent \<^verbatim>\<open>hasSpawn\<close> is \<open>False\<close> and an absent
  \<^verbatim>\<open>subregions\<close> is the empty list, which is how every reader in the sources treats
  them. Village coordinates come from \<^verbatim>\<open>parseInt\<close> and the radius is the constant 64,
  so the numbers of a subregion are integers. The world type and the greeting size are
  the string unions of the function signatures.
\<close>

datatype ChallengeLevel = Vanilla | Bronze | Silver | Gold | Platinum

datatype WorldType = Overworld | Nether

datatype GreetingSize = Large | Small | Chat

record Subregion =
  sub_id :: string
  sub_name :: string
  sub_x :: int
  sub_z :: int
  sub_radius :: int
  sub_type :: string
  sub_details :: string
  sub_parentRegionId :: "string option"

record Region =
  region_id :: string
  name :: string
  points :: "Point list"
  centerPoint :: "Point option"
  challengeLevel :: "ChallengeLevel option"
  hasSpawn :: bool
  subregions :: "Subregion list"

definition levelName :: "ChallengeLevel \<Rightarrow> string" where
  "levelName l = (case l of Vanilla \<Rightarrow> ''Vanilla'' | Bronze \<Rightarrow> ''Bronze'' | Silver \<Rightarrow> ''Silver''
                   | Gold \<Rightarrow> ''Gold'' | Platinum \<Rightarrow> ''Platinum'')"

subsection \<open>Region centre\<close>

text \<open>\<^verbatim>\<open>calculatePolygonCenter\<close> (the sums are the loop over the points) and \<^verbatim>\<open>calculateRegionCenter\<close>.\<close>

definition calculatePolygonCenter :: "Point list \<Rightarrow> Point" where
  "calculatePolygonCenter pts =
    (if length pts = 0 then Pt 0 0
     else if length pts = 1 then Pt (px (pts ! 0)) (pz (pts ! 0))
     else
       let totals = fold (\<lambda>point (sumX, sumZ). (sumX + px point, sumZ + pz point)) pts (0, 0)
       in Pt (fst totals / real (length pts)) (snd totals / real (length pts)))"

definition calculateRegionCenter :: "Region \<Rightarrow> Point" where
  "calculateRegionCenter region =
    (case centerPoint region of
       Some c \<Rightarrow> c
     | None \<Rightarrow> calculatePolygonCenter (points region))"

subsection \<open>WorldGuard regions YAML\<close>

text \<open>
  The section sign and the em dash of the flavour texts, as their UTF-8 bytes. The
  \<^verbatim>\<open>default\<close> branch of the \<^verbatim>\<open>switch\<close> in \<^verbatim>\<open>getChallengeLevelColor\<close> is not reached
  by a value of the type.
\<close>

definition sect :: string where
  "sect = [CHR 0xC2, CHR 0xA7]"

definition emDash :: string where
  "emDash = [CHR 0xE2, CHR 0x80, CHR 0x94]"

definition getChallengeLevelColor :: "ChallengeLevel \<Rightarrow> string" where
  "getChallengeLevelColor l =
    (case l of
       Vanilla \<Rightarrow> sect @ ''aA safe haven from stronger mobs''
     | Bronze \<Rightarrow> sect @ ''eMobs here are a little bit stronger''
     | Silver \<Rightarrow> sect @ ''6Mobs put up a decent fight here''
     | Gold \<Rightarrow> sect @ ''cMobs here hit hard '' @ emDash @ '' be ready''
     | Platinum \<Rightarrow> sect @ ''4Mobs here are extremely dangerous'')"

definition worldMinY :: "bool \<Rightarrow> int" where
  "worldMinY useModernWorldHeight = (if useModernWorldHeight then - 64 else 0)"

definition worldMaxY :: "bool \<Rightarrow> int" where
  "worldMaxY useModernWorldHeight = (if useModernWorldHeight then 320 else 255)"

text \<open>\<^verbatim>\<open>generateSubregionYAML\<close> of \<^verbatim>\<open>villageUtils.ts\<close>: the cuboid block of a village.\<close>

definition generateSubregionYAML ::
  "Subregion \<Rightarrow> string \<Rightarrow> WorldType option \<Rightarrow> bool \<Rightarrow> bool \<Rightarrow> GreetingSize \<Rightarrow> string" where
  "generateSubregionYAML subregion parentRegionName worldType useModernWorldHeight
      useGreetingsAndFarewells greetingSize =
    (let subregionName = replaceWhiteSpace ''_'' (toLowerCase (sub_name subregion));
         parentRegionNameForYAML = replaceWhiteSpace ''_'' (toLowerCase parentRegionName);
         greetingText = ''Welcome to'';
         minY = worldMinY useModernWorldHeight;
         maxY = worldMaxY useModernWorldHeight;
         flags =
           (if useGreetingsAndFarewells then
              (let (greetingLine1, greetingLine2, farewellLine1, farewellLine2) =
                 (if greetingSize = Large then
                    (sect @ ''f'' @ greetingText @ '' '' @ sub_name subregion @ '' village'',
                     sect @ ''f'',
                     sect @ ''fLeaving '' @ sub_name subregion @ '' village'',
                     sect @ ''f'')
                  else
                    (sect @ ''f'',
                     sect @ ''f'' @ greetingText @ '' '' @ sub_name subregion @ '' village'',
                     sect @ ''f'',
                     sect @ ''fLeaving '' @ sub_name subregion @ '' village''))
               in ''      greeting-title: |-\<newline>        '' @ greetingLine1
                  @ ''\<newline>        '' @ greetingLine2
                  @ ''\<newline>      farewell-title: |-\<newline>        '' @ farewellLine1
                  @ ''\<newline>        '' @ farewellLine2
                  @ ''\<newline>      passthrough: allow'')
            else ''{passthrough: allow}'')
     in ''  '' @ subregionName @ '':\<newline>    type: cuboid\<newline>    min-y: '' @ showInt minY
        @ ''\<newline>    max-y: '' @ showInt maxY
        @ ''\<newline>    priority: 10\<newline>    parent: '' @ parentRegionNameForYAML
        @ ''\<newline>    ''
        @ (if useGreetingsAndFarewells then ''flags:\<newline>'' @ flags else ''flags: '' @ flags)
        @ ''\<newline>    min: {x: '' @ showInt (sub_x subregion - sub_radius subregion)
        @ '', y: '' @ showInt minY
        @ '', z: '' @ showInt (sub_z subregion - sub_radius subregion)
        @ ''}\<newline>    max: {x: '' @ showInt (sub_x subregion + sub_radius subregion)
        @ '', y: '' @ showInt maxY
        @ '', z: '' @ showInt (sub_z subregion + sub_radius subregion) @ ''}'')"

text \<open>
  \<^verbatim>\<open>generateRegionYAML\<close>. The last argument \<open>randomMobs\<close> is the array that the call of
  \<^verbatim>\<open>generateRandomMobList()\<close> returns (it draws from \<^verbatim>\<open>Math.random\<close>; every path calls
  it at most once, and only when \<^verbatim>\<open>randomMobSpawn\<close> is set). \<open>pointLines\<close> is the
  string \<^verbatim>\<open>points\<close> of the source. The variable \<^verbatim>\<open>yaml\<close> is assigned twice.
\<close>

definition generateRegionYAML ::
  "Region \<Rightarrow> bool \<Rightarrow> bool \<Rightarrow> bool \<Rightarrow> WorldType option \<Rightarrow> bool \<Rightarrow> bool \<Rightarrow> GreetingSize \<Rightarrow> bool
     \<Rightarrow> string list \<Rightarrow> string" where
  "generateRegionYAML region includeVillages randomMobSpawn includeHeartRegions worldType
      useModernWorldHeight useGreetingsAndFarewells greetingSize includeChallengeLevelSubheading
      randomMobs =
    (let pointLines = join ''\<newline>'' (map (\<lambda>point.
             ''      - {x: '' @ showInt (Math_round (px point))
             @ '', z: '' @ showInt (Math_round (pz point)) @ ''}'') (points region));
         isMainRegion = (\<not> includes_str (toLowerCase (name region)) ''spawn''
                         \<and> \<not> includes_str (toLowerCase (name region)) ''heart''
                         \<and> \<not> includes_str (toLowerCase (name region)) ''village'');
         greetingText = (if worldType = Some Nether then ''You descend into'' else ''Welcome to'');
         flags =
           (if useGreetingsAndFarewells then
              (if isMainRegion \<and> challengeLevel region \<noteq> None then
                 (let challengeColor =
                        (if includeChallengeLevelSubheading \<and> greetingSize = Large
                         then getChallengeLevelColor (the (challengeLevel region))
                         else sect @ ''f'');
                      (greetingLine1, greetingLine2, farewellLine1, farewellLine2) =
                        (if greetingSize = Large then
                           (sect @ ''f'' @ greetingText @ '' '' @ name region,
                            challengeColor,
                            sect @ ''fLeaving '' @ name region,
                            sect @ ''f'')
                         else
                           (sect @ ''f'',
                            sect @ ''f'' @ greetingText @ '' '' @ name region,
                            sect @ ''f'',
                            sect @ ''fLeaving '' @ name region));
                      block = ''    greeting-title: |-\<newline>      '' @ greetingLine1
                        @ ''\<newline>      '' @ greetingLine2
                        @ ''\<newline>    farewell-title: |-\<newline>      '' @ farewellLine1
                        @ ''\<newline>      '' @ farewellLine2
                        @ ''\<newline>    passthrough: allow''
                  in if randomMobSpawn
                     then block @ ''\<newline>    deny-spawn: ['' @ join '','' randomMobs @ '']''
                     else block)
               else
                 (if randomMobSpawn then
                    ''{greeting-title: '' @ greetingText @ '' '' @ name region
                    @ '', farewell-title: Leaving '' @ name region
                    @ ''., passthrough: allow, deny-spawn: ['' @ join '','' randomMobs @ '']}''
                  else
                    ''{greeting-title: '' @ greetingText @ '' '' @ name region
                    @ '', farewell-title: Leaving '' @ name region @ ''., passthrough: allow}''))
            else
              (if randomMobSpawn
               then ''{passthrough: allow, deny-spawn: ['' @ join '','' randomMobs @ '']}''
               else ''{passthrough: allow}''));
         regionNameForYAML = replaceWhiteSpace ''_'' (toLowerCase (name region));
         minY = worldMinY useModernWorldHeight;
         maxY = worldMaxY useModernWorldHeight;
         yaml = ''  '' @ regionNameForYAML @ '':\<newline>    type: poly2d\<newline>    min-y: '' @ showInt minY
           @ ''\<newline>    max-y: '' @ showInt maxY
           @ ''\<newline>    priority: 0\<newline>    flags:\<newline>''
           @ (if useGreetingsAndFarewells \<and> isMainRegion \<and> challengeLevel region \<noteq> None
              then ''  '' @ replaceNewlines ''\<newline>  '' flags
              else ''      '' @ flags)
           @ ''\<newline>    points:\<newline>'' @ pointLines;
         yaml = (if includeHeartRegions then
             (let regionCenter = calculateRegionCenter region;
                  heartRegionName = ''heart_of_'' @ replaceWhiteSpace ''_'' (toLowerCase (name region));
                  heartSize = 7 :: real;
                  heartFlags =
                    (if useGreetingsAndFarewells
                     then ''{greeting-title: Heart of '' @ name region
                       @ '', build: deny, interact: allow, creeper-explosion: deny, other-explosion: deny, tnt: deny}''
                     else ''{build: deny, interact: allow, creeper-explosion: deny, other-explosion: deny, tnt: deny}'')
              in yaml @ ''\<newline>\<newline>  '' @ heartRegionName @ '':\<newline>    type: cuboid\<newline>    min: {x: ''
                 @ showInt (Math_round (px regionCenter - of_int \<lfloor>heartSize / 2\<rfloor>))
                 @ '', y: '' @ showInt minY
                 @ '', z: '' @ showInt (Math_round (pz regionCenter - of_int \<lfloor>heartSize / 2\<rfloor>))
                 @ ''}\<newline>    max: {x: ''
                 @ showInt (Math_round (px regionCenter + of_int \<lfloor>heartSize / 2\<rfloor>))
                 @ '', y: '' @ showInt maxY
                 @ '', z: '' @ showInt (Math_round (pz regionCenter + of_int \<lfloor>heartSize / 2\<rfloor>))
                 @ ''}\<newline>    members: {}\<newline>    owners: {}\<newline>    flags: '' @ heartFlags
                 @ ''\<newline>    priority: 10'')
           else yaml)
     in if includeVillages \<and> length (subregions region) > 0 then
          yaml @ ''\<newline>\<newline>''
          @ join ''\<newline>\<newline>'' (map (\<lambda>subregion.
               generateSubregionYAML subregion (name region) worldType useModernWorldHeight
                 useGreetingsAndFarewells greetingSize) (subregions region))
        else yaml)"

subsection \<open>Sample regions\<close>

text \<open>Regions and a village used to evaluate the exporters and the spawn checkbox.\<close>

definition haven :: Region where
  "haven = \<lparr>region_id = ''r1'', name = ''Haven'', points = [Pt 0 0, Pt 8 0, Pt 0 8],
     centerPoint = None, challengeLevel = Some Vanilla, hasSpawn = False, subregions = []\<rparr>"

definition wilds :: Region where
  "wilds = \<lparr>region_id = ''r2'', name = ''The Wilds'', points = [Pt 0 0, Pt 8 0, Pt 0 8],
     centerPoint = None, challengeLevel = None, hasSpawn = False, subregions = []\<rparr>"

definition spawnTown :: Region where
  "spawnTown = \<lparr>region_id = ''r3'', name = ''Spawn Town'', points = [Pt 0 0, Pt 8 0, Pt 0 8],
     centerPoint = None, challengeLevel = None, hasSpawn = True, subregions = []\<rparr>"

definition oakridge :: Subregion where
  "oakridge = \<lparr>sub_id = ''village_0'', sub_name = ''Oak Ridge'', sub_x = 50, sub_z = 50,
     sub_radius = 64, sub_type = ''village'', sub_details = ''foo'',
     sub_parentRegionId = Some ''r2''\<rparr>"

lemma showInt_values:
  "showInt 0 = ''0''" "showInt 2 = ''2''" "showInt 8 = ''8''" "showInt 10 = ''10''"
  "showInt (- 64) = ''-64''" "showInt 320 = ''320''"
  by (simp_all add: showInt_def showNat.simps)

lemma testVale_name:
  "toLowerCase ''Test Vale'' = ''test vale''"
  "replaceWhiteSpace ''_'' ''test vale'' = ''test_vale''"
  by (simp_all add: toLowerCase_def isWhiteSpace_def replaceWhiteSpace.simps)

lemma testVale_center:
  "calculatePolygonCenter [Pt 0 0, Pt 10 0, Pt 10 10, Pt 0 10] = Pt 5 5"
  by (simp add: calculatePolygonCenter_def)

text \<open>
  C7. The region named \<open>Test Vale\<close> with the points \<open>(0,0), (10,0), (10,10), (0,10)\<close>
  and no centre override, exported with heart regions, modern world height and no
  greetings (and no random mob list), gives exactly the text below, whatever the other
  options and fields are: the key \<open>test_vale\<close> with \<open>min-y: -64\<close>, \<open>max-y: 320\<close>,
  \<open>priority: 0\<close> and the flags \<open>{passthrough: allow}\<close>, and the cuboid
  \<open>heart_of_test_vale\<close> from \<open>(2, 2)\<close> to \<open>(8, 8)\<close>, seven blocks each way around
  \<open>(5, 5)\<close>.
\<close>

theorem generateRegionYAML_test_vale:
  "generateRegionYAML
     \<lparr>region_id = rid, name = ''Test Vale'', points = [Pt 0 0, Pt 10 0, Pt 10 10, Pt 0 10],
      centerPoint = None, challengeLevel = level, hasSpawn = spawn, subregions = []\<rparr>
     includeVillages False True worldType True False greetingSize includeChallengeLevelSubheading
     randomMobs
   = ''  test_vale:\<newline>'' @
     ''    type: poly2d\<newline>'' @
     ''    min-y: -64\<newline>'' @
     ''    max-y: 320\<newline>'' @
     ''    priority: 0\<newline>'' @
     ''    flags:\<newline>'' @
     ''      {passthrough: allow}\<newline>'' @
     ''    points:\<newline>'' @
     ''      - {x: 0, z: 0}\<newline>'' @
     ''      - {x: 10, z: 0}\<newline>'' @
     ''      - {x: 10, z: 10}\<newline>'' @
     ''      - {x: 0, z: 10}\<newline>'' @
     ''\<newline>'' @
     ''  heart_of_test_vale:\<newline>'' @
     ''    type: cuboid\<newline>'' @
     ''    min: {x: 2, y: -64, z: 2}\<newline>'' @
     ''    max: {x: 8, y: 320, z: 8}\<newline>'' @
     ''    members: {}\<newline>'' @
     ''    owners: {}\<newline>'' @
     ''    flags: {build: deny, interact: allow, creeper-explosion: deny, other-explosion: deny, tnt: deny}\<newline>'' @
     ''    priority: 10''"
  by (simp add: generateRegionYAML_def calculateRegionCenter_def testVale_center testVale_name
      worldMinY_def worldMaxY_def Math_round_def showInt_values)

subsection \<open>Exports: what an export call does\<close>

text \<open>
  An exporter of \<^verbatim>\<open>exportUtils.ts\<close> offers a file for download (its name and its
  text) and calls \<^verbatim>\<open>onShowToast\<close> with a message and a severity; either may be absent.
\<close>

datatype ToastType = ToastSuccess | ToastError | ToastWarning | ToastInfo

record ExportResult =
  download :: "(string \<times> string) option"
  toast :: "(string \<times> ToastType) option"

subsection \<open>Achievements export\<close>

text \<open>
  The three blocks of six lines that \<^verbatim>\<open>generateAchievementsYAML\<close> appends, each
  followed in the source by \<^verbatim>\<open>achievementCount++\<close>; then the two loops on the pair
  \<^verbatim>\<open>(yamlContent, achievementCount)\<close>.
\<close>

definition regionAchievement :: "WorldType option \<Rightarrow> Region \<Rightarrow> string" where
  "regionAchievement worldType region =
    (let regionKey = replaceWhiteSpace '''' (name region);
         achievementKey = ''discover'' @ regionKey;
         regionMessage =
           (if worldType = Some Nether
            then ''You discovered the nether region of '' @ name region
            else ''You discovered the region of '' @ name region);
         regionDisplayName =
           (if worldType = Some Nether then ''Nether Region Discovery'' else ''Region Discovery'')
     in ''  '' @ achievementKey @ '':\<newline>''
        @ ''    Goal: Discover '' @ name region @ '' Region\<newline>''
        @ ''    Message: '' @ regionMessage @ ''\<newline>''
        @ ''    Name: discover_'' @ replaceWhiteSpace ''_'' (toLowerCase (name region)) @ ''\<newline>''
        @ ''    DisplayName: '' @ regionDisplayName @ ''\<newline>''
        @ ''    Type: normal\<newline>'')"

definition heartAchievement :: "WorldType option \<Rightarrow> Region \<Rightarrow> string" where
  "heartAchievement worldType region =
    (let regionKey = replaceWhiteSpace '''' (name region);
         heartKey = ''discoverHeartOf'' @ regionKey;
         heartMessage =
           (if worldType = Some Nether
            then ''You discovered the nether '' @ replaceWhiteSpace ''_'' (toLowerCase (name region))
            else ''You discovered the Heart of '' @ name region);
         heartDisplayName =
           (if worldType = Some Nether then ''Nether Heart Discovery'' else ''Heart Discovery'')
     in ''  '' @ heartKey @ '':\<newline>''
        @ ''    Goal: Discover the Heart of '' @ name region @ ''\<newline>''
        @ ''    Message: '' @ heartMessage @ ''\<newline>''
        @ ''    Name: discover_heart_of_'' @ replaceWhiteSpace ''_'' (toLowerCase (name region)) @ ''\<newline>''
        @ ''    DisplayName: '' @ heartDisplayName @ ''\<newline>''
        @ ''    Type: normal\<newline>'')"

definition villageAchievement :: "Subregion \<Rightarrow> string" where
  "villageAchievement subregion =
    (let villageKey = replaceWhiteSpace '''' (sub_name subregion);
         villageAchievementKey = ''discover'' @ villageKey
     in ''  '' @ villageAchievementKey @ '':\<newline>''
        @ ''    Goal: Discover '' @ sub_name subregion @ '' Village\<newline>''
        @ ''    Message: You discovered the village of '' @ sub_name subregion @ ''\<newline>''
        @ ''    Name: discover_'' @ replaceWhiteSpace ''_'' (toLowerCase (sub_name subregion)) @ ''\<newline>''
        @ ''    DisplayName: Village Discovery\<newline>''
        @ ''    Type: normal\<newline>'')"

definition achievementsOfVillage :: "Subregion \<Rightarrow> string \<times> nat \<Rightarrow> string \<times> nat" where
  "achievementsOfVillage subregion = (\<lambda>(yamlContent, achievementCount).
     if sub_type subregion = ''village''
     then (yamlContent @ villageAchievement subregion, achievementCount + 1)
     else (yamlContent, achievementCount))"

definition achievementsOfRegion :: "WorldType option \<Rightarrow> Region \<Rightarrow> string \<times> nat \<Rightarrow> string \<times> nat" where
  "achievementsOfRegion worldType region = (\<lambda>(yamlContent, achievementCount).
     let yamlContent = yamlContent @ regionAchievement worldType region;
         achievementCount = achievementCount + 1;
         yamlContent = yamlContent @ heartAchievement worldType region;
         achievementCount = achievementCount + 1
     in if length (subregions region) > 0
        then fold achievementsOfVillage (subregions region) (yamlContent, achievementCount)
        else (yamlContent, achievementCount))"

definition generateAchievementsYAML :: "Region list \<Rightarrow> WorldType option \<Rightarrow> ExportResult" where
  "generateAchievementsYAML regions worldType =
    (if length regions = 0 then
       \<lparr>download = None,
        toast = Some (''No regions to generate achievements for'', ToastError)\<rparr>
     else
       let (yamlContent, achievementCount) =
             fold (achievementsOfRegion worldType) regions (''Commands:\<newline>'', 0)
       in \<lparr>download = Some (''achievements.yml'', yamlContent),
           toast = Some (''Generated '' @ showNat achievementCount @ '' achievements'', ToastSuccess)\<rparr>)"

text \<open>The subregions of a region that are villages, and their number over all regions.\<close>

definition villages :: "Region \<Rightarrow> Subregion list" where
  "villages region = filter (\<lambda>subregion. sub_type subregion = ''village'') (subregions region)"

definition villageCount :: "Region list \<Rightarrow> nat" where
  "villageCount regions = sum_list (map (\<lambda>region. length (villages region)) regions)"

text \<open>
  The file as data. An entry of the \<^verbatim>\<open>Commands\<close> mapping is an achievement key with
  the five fields \<^verbatim>\<open>Goal\<close>, \<^verbatim>\<open>Message\<close>, \<^verbatim>\<open>Name\<close>, \<^verbatim>\<open>DisplayName\<close> and \<^verbatim>\<open>Type\<close>;
  it is written as the key line, indented by two spaces, and one line for each field,
  indented by four. \<open>expectedAchievements\<close> lists the entries a list of regions is to
  give: for each region its discovery entry, its heart entry, and one entry for each of
  its subregions of type \<open>village\<close>, in this order. \<open>entryKeys\<close> reads the keys
  back from a text: the lines that are indented by exactly two spaces, without the
  indentation and the final colon.
\<close>

record Achievement =
  ach_key :: string
  ach_goal :: string
  ach_message :: string
  ach_name :: string
  ach_displayName :: string
  ach_type :: string

definition achievementLines :: "Achievement \<Rightarrow> string list" where
  "achievementLines a =
    [''  '' @ ach_key a @ '':'',
     ''    Goal: '' @ ach_goal a,
     ''    Message: '' @ ach_message a,
     ''    Name: '' @ ach_name a,
     ''    DisplayName: '' @ ach_displayName a,
     ''    Type: '' @ ach_type a]"

definition achievementBlock :: "Achievement \<Rightarrow> string" where
  "achievementBlock a = concat (map (\<lambda>line. line @ ''\<newline>'') (achievementLines a))"

definition regionDiscovery :: "WorldType option \<Rightarrow> Region \<Rightarrow> Achievement" where
  "regionDiscovery worldType region =
    \<lparr>ach_key = ''discover'' @ replaceWhiteSpace '''' (name region),
     ach_goal = ''Discover '' @ name region @ '' Region'',
     ach_message =
       (if worldType = Some Nether then ''You discovered the nether region of '' @ name region
        else ''You discovered the region of '' @ name region),
     ach_name = ''discover_'' @ replaceWhiteSpace ''_'' (toLowerCase (name region)),
     ach_displayName =
       (if worldType = Some Nether then ''Nether Region Discovery'' else ''Region Discovery''),
     ach_type = ''normal''\<rparr>"

definition heartDiscovery :: "WorldType option \<Rightarrow> Region \<Rightarrow> Achievement" where
  "heartDiscovery worldType region =
    \<lparr>ach_key = ''discoverHeartOf'' @ replaceWhiteSpace '''' (name region),
     ach_goal = ''Discover the Heart of '' @ name region,
     ach_message =
       (if worldType = Some Nether
        then ''You discovered the nether '' @ replaceWhiteSpace ''_'' (toLowerCase (name region))
        else ''You discovered the Heart of '' @ name region),
     ach_name = ''discover_heart_of_'' @ replaceWhiteSpace ''_'' (toLowerCase (name region)),
     ach_displayName =
       (if worldType = Some Nether then ''Nether Heart Discovery'' else ''Heart Discovery''),
     ach_type = ''normal''\<rparr>"

definition villageDiscovery :: "Subregion \<Rightarrow> Achievement" where
  "villageDiscovery subregion =
    \<lparr>ach_key = ''discover'' @ replaceWhiteSpace '''' (sub_name subregion),
     ach_goal = ''Discover '' @ sub_name subregion @ '' Village'',
     ach_message = ''You discovered the village of '' @ sub_name subregion,
     ach_name = ''discover_'' @ replaceWhiteSpace ''_'' (toLowerCase (sub_name subregion)),
     ach_displayName = ''Village Discovery'',
     ach_type = ''normal''\<rparr>"

definition expectedAchievements :: "WorldType option \<Rightarrow> Region list \<Rightarrow> Achievement list" where
  "expectedAchievements worldType regions =
    concat (map (\<lambda>region.
      [regionDiscovery worldType region, heartDiscovery worldType region]
      @ map villageDiscovery (villages region)) regions)"

definition expectedAchievementsFile :: "WorldType option \<Rightarrow> Region list \<Rightarrow> string" where
  "expectedAchievementsFile worldType regions =
    ''Commands:\<newline>'' @ concat (map achievementBlock (expectedAchievements worldType regions))"

fun splitLines :: "string \<Rightarrow> string list" where
  "splitLines [] = []"
| "splitLines (c # cs) =
    (if c = CHR 0x0A then [] # splitLines cs
     else (case splitLines cs of [] \<Rightarrow> [[c]] | line # lines \<Rightarrow> (c # line) # lines))"

definition isKeyLine :: "string \<Rightarrow> bool" where
  "isKeyLine line =
    (case line of
       a # b # c # _ \<Rightarrow> a = CHR '' '' \<and> b = CHR '' '' \<and> c \<noteq> CHR '' ''
     | _ \<Rightarrow> False)"

definition entryKeys :: "string \<Rightarrow> string list" where
  "entryKeys text = map (\<lambda>line. butlast (drop 2 line)) (filter isKeyLine (splitLines text))"

definition singleLine :: "string \<Rightarrow> bool" where
  "singleLine s = (CHR 0x0A \<notin> set s)"

definition singleLineNames :: "Region list \<Rightarrow> bool" where
  "singleLineNames regions =
    list_all (\<lambda>region. singleLine (name region)
                \<and> list_all (\<lambda>subregion. singleLine (sub_name subregion)) (villages region))
      regions"

lemma regionAchievement_block:
  "regionAchievement worldType region = achievementBlock (regionDiscovery worldType region)"
  by (simp add: regionAchievement_def achievementBlock_def achievementLines_def
      regionDiscovery_def Let_def)

lemma heartAchievement_block:
  "heartAchievement worldType region = achievementBlock (heartDiscovery worldType region)"
  by (simp add: heartAchievement_def achievementBlock_def achievementLines_def
      heartDiscovery_def Let_def)

lemma villageAchievement_block:
  "villageAchievement subregion = achievementBlock (villageDiscovery subregion)"
  by (simp add: villageAchievement_def achievementBlock_def achievementLines_def
      villageDiscovery_def Let_def)

lemma fold_achievementsOfVillage:
  "fold achievementsOfVillage subs (y, c)
     = (y @ concat (map achievementBlock
               (map villageDiscovery (filter (\<lambda>s. sub_type s = ''village'') subs))),
        c + length (filter (\<lambda>s. sub_type s = ''village'') subs))"
  by (induction subs arbitrary: y c)
     (simp_all add: achievementsOfVillage_def villageAchievement_block)

lemma achievementsOfRegion_expected:
  "achievementsOfRegion worldType region (y, c)
     = (y @ concat (map achievementBlock (expectedAchievements worldType [region])),
        c + length (expectedAchievements worldType [region]))"
  by (simp add: achievementsOfRegion_def expectedAchievements_def villages_def Let_def
      fold_achievementsOfVillage regionAchievement_block heartAchievement_block)

lemma expectedAchievements_Cons:
  "expectedAchievements worldType (region # regions)
     = expectedAchievements worldType [region] @ expectedAchievements worldType regions"
  by (simp add: expectedAchievements_def)

lemma fold_achievementsOfRegion:
  "fold (achievementsOfRegion worldType) regions (y, c)
     = (y @ concat (map achievementBlock (expectedAchievements worldType regions)),
        c + length (expectedAchievements worldType regions))"
proof (induction regions arbitrary: y c)
  case Nil
  then show ?case by (simp add: expectedAchievements_def)
next
  case (Cons region regions)
  show ?case
    by (simp only: fold_simps achievementsOfRegion_expected Cons.IH
        expectedAchievements_Cons [of _ region regions] map_append concat_append length_append
        append_assoc add.assoc)
qed

lemma length_expectedAchievements:
  "length (expectedAchievements worldType regions) = 2 * length regions + villageCount regions"
  by (induction regions) (simp_all add: expectedAchievements_def villageCount_def)

lemma generateAchievementsYAML_expected:
  assumes "regions \<noteq> []"
  shows "generateAchievementsYAML regions worldType
        = \<lparr>download = Some (''achievements.yml'', expectedAchievementsFile worldType regions),
           toast = Some (''Generated ''
                         @ showNat (2 * length regions + villageCount regions)
                         @ '' achievements'', ToastSuccess)\<rparr>"
  using assms
  by (simp add: generateAchievementsYAML_def fold_achievementsOfRegion
      length_expectedAchievements expectedAchievementsFile_def)

text \<open>The lines of a block read back, and the lines of the whole file.\<close>

lemma splitLines_line:
  "CHR 0x0A \<notin> set line \<Longrightarrow> splitLines (line @ CHR 0x0A # rest) = line # splitLines rest"
  by (induction line) auto

lemma splitLines_lines:
  "\<forall>line \<in> set lines. singleLine line \<Longrightarrow>
   splitLines (concat (map (\<lambda>line. line @ ''\<newline>'') lines) @ rest) = lines @ splitLines rest"
  by (induction lines) (simp_all add: splitLines_line singleLine_def)

lemma singleLine_Nil [simp]: "singleLine []"
  by (simp add: singleLine_def)

lemma singleLine_Cons [simp]: "singleLine (c # s) \<longleftrightarrow> c \<noteq> CHR 0x0A \<and> singleLine s"
  by (auto simp: singleLine_def)

lemma singleLine_append [simp]: "singleLine (a @ b) \<longleftrightarrow> singleLine a \<and> singleLine b"
  by (auto simp: singleLine_def)

lemma singleLine_toLowerCase:
  assumes "singleLine s"
  shows "singleLine (toLowerCase s)"
proof -
  define m where "m = map_of (zip ''ABCDEFGHIJKLMNOPQRSTUVWXYZ'' ''abcdefghijklmnopqrstuvwxyz'')"
  define lower where "lower = (\<lambda>c. case m c of Some l \<Rightarrow> l | None \<Rightarrow> c)"
  have some: "l \<noteq> CHR 0x0A" if "m c = Some l" for c l
  proof -
    from that have "(c, l) \<in> set (zip ''ABCDEFGHIJKLMNOPQRSTUVWXYZ'' ''abcdefghijklmnopqrstuvwxyz'')"
      unfolding m_def by (rule map_of_SomeD)
    then have "l \<in> set ''abcdefghijklmnopqrstuvwxyz''" by (rule set_zip_rightD)
    then show ?thesis by auto
  qed
  have low: "lower c \<noteq> CHR 0x0A" if c: "c \<noteq> CHR 0x0A" for c
  proof (cases "m c")
    case None
    with c show ?thesis by (simp add: lower_def)
  next
    case (Some l)
    from some [OF Some] show ?thesis by (simp add: lower_def Some)
  qed
  have "CHR 0x0A \<notin> set (map lower s)"
  proof
    assume "CHR 0x0A \<in> set (map lower s)"
    then obtain c where c: "c \<in> set s" "lower c = CHR 0x0A" by (auto simp: image_iff)
    from c(1) assms have "c \<noteq> CHR 0x0A" unfolding singleLine_def by blast
    from low [OF this] c(2) show False by contradiction
  qed
  then show ?thesis
    unfolding singleLine_def toLowerCase_def lower_def m_def .
qed

lemma singleLine_replaceWhiteSpace:
  "singleLine rep \<Longrightarrow> singleLine (replaceWhiteSpace rep s)"
proof (induction rep s rule: replaceWhiteSpace.induct)
  case (1 rep)
  then show ?case by (simp add: replaceWhiteSpace.simps)
next
  case (2 rep c cs)
  show ?case
  proof (cases "isWhiteSpace c")
    case True
    then show ?thesis using 2 by (simp add: replaceWhiteSpace.simps)
  next
    case False
    then have "c \<noteq> CHR 0x0A" by (auto simp: isWhiteSpace_def)
    then show ?thesis using 2 False by (simp add: replaceWhiteSpace.simps)
  qed
qed

definition oneLineEntry :: "Achievement \<Rightarrow> bool" where
  "oneLineEntry a = (list_all singleLine (achievementLines a) \<and> hd (ach_key a @ '':'') \<noteq> CHR '' '')"

lemma entryKeys_blocks:
  assumes "\<forall>a \<in> set as. oneLineEntry a"
  shows "map (\<lambda>line. butlast (drop 2 line))
           (filter isKeyLine (splitLines (concat (map achievementBlock as)))) = map ach_key as"
  using assms
proof (induction as)
  case Nil
  then show ?case by simp
next
  case (Cons a as)
  have one: "\<forall>line \<in> set (achievementLines a). singleLine line"
    and key: "hd (ach_key a @ '':'') \<noteq> CHR '' ''"
    using Cons.prems by (simp_all add: oneLineEntry_def list_all_iff)
  have split: "splitLines (achievementBlock a @ concat (map achievementBlock as))
      = achievementLines a @ splitLines (concat (map achievementBlock as))"
    unfolding achievementBlock_def by (rule splitLines_lines [OF one])
  have k: "isKeyLine (''  '' @ ach_key a @ '':'')"
    using key by (cases "ach_key a") (simp_all add: isKeyLine_def)
  have f: "filter isKeyLine (achievementLines a) = [''  '' @ ach_key a @ '':'']"
    using k by (simp add: achievementLines_def) (simp add: isKeyLine_def)
  show ?case
    using Cons f by (simp add: split)
qed

lemma entryKeys_file:
  assumes "\<forall>a \<in> set (expectedAchievements worldType regions). oneLineEntry a"
  shows "entryKeys (expectedAchievementsFile worldType regions)
           = map ach_key (expectedAchievements worldType regions)"
proof -
  have "splitLines (''Commands:'' @ CHR 0x0A # concat (map achievementBlock (expectedAchievements worldType regions)))
      = ''Commands:'' # splitLines (concat (map achievementBlock (expectedAchievements worldType regions)))"
    by (rule splitLines_line) simp
  then show ?thesis
    using entryKeys_blocks [OF assms]
    by (simp add: entryKeys_def expectedAchievementsFile_def isKeyLine_def)
qed

lemma oneLineEntry_expected:
  assumes "singleLineNames regions"
  shows "\<forall>a \<in> set (expectedAchievements worldType regions). oneLineEntry a"
proof -
  have r: "oneLineEntry (regionDiscovery worldType region)" if "singleLine (name region)" for region
    using that
    by (simp add: oneLineEntry_def achievementLines_def regionDiscovery_def
        singleLine_toLowerCase singleLine_replaceWhiteSpace)
  have h: "oneLineEntry (heartDiscovery worldType region)" if "singleLine (name region)" for region
    using that
    by (simp add: oneLineEntry_def achievementLines_def heartDiscovery_def
        singleLine_toLowerCase singleLine_replaceWhiteSpace)
  have v: "oneLineEntry (villageDiscovery s)" if "singleLine (sub_name s)" for s
    using that
    by (simp add: oneLineEntry_def achievementLines_def villageDiscovery_def
        singleLine_toLowerCase singleLine_replaceWhiteSpace)
  show ?thesis
  proof
    fix a
    assume "a \<in> set (expectedAchievements worldType regions)"
    then obtain region where reg: "region \<in> set regions"
      and a: "a = regionDiscovery worldType region \<or> a = heartDiscovery worldType region
              \<or> a \<in> villageDiscovery ` set (villages region)"
      by (auto simp: expectedAchievements_def)
    from assms reg have n: "singleLine (name region)"
      and vs: "\<forall>s \<in> set (villages region). singleLine (sub_name s)"
      by (auto simp: singleLineNames_def list_all_iff)
    from a vs show "oneLineEntry a" using r [OF n] h [OF n] v by auto
  qed
qed


text \<open>
  C8. For a non-empty list of regions the file offered is \<open>Commands:\<close> followed by
  the entries of \<open>expectedAchievements\<close>, each written in full: two per region
  (region discovery, then heart discovery) and one per subregion of type \<open>village\<close>,
  and the count reported in the toast is the number of these entries, four for two
  regions without villages, five for two regions with one village. When no name
  contains a line break, the keys read back from the text of the file are exactly the
  keys of these entries, one key line per entry.
\<close>

theorem achievements_entry_count:
  "(regions \<noteq> [] \<longrightarrow>
      generateAchievementsYAML regions worldType
        = \<lparr>download = Some (''achievements.yml'', expectedAchievementsFile worldType regions),
           toast = Some (''Generated ''
                         @ showNat (2 * length regions + villageCount regions)
                         @ '' achievements'', ToastSuccess)\<rparr>)
   \<and> length (expectedAchievements worldType regions) = 2 * length regions + villageCount regions
   \<and> (singleLineNames regions \<longrightarrow>
        entryKeys (expectedAchievementsFile worldType regions)
          = map ach_key (expectedAchievements worldType regions))
   \<and> (length regions = 2 \<and> villageCount regions = 0
        \<longrightarrow> length (expectedAchievements worldType regions) = 4)
   \<and> (length regions = 2 \<and> villageCount regions = 1
        \<longrightarrow> length (expectedAchievements worldType regions) = 5)"
proof (intro conjI impI)
  assume "regions \<noteq> []"
  then show "generateAchievementsYAML regions worldType
        = \<lparr>download = Some (''achievements.yml'', expectedAchievementsFile worldType regions),
           toast = Some (''Generated ''
                         @ showNat (2 * length regions + villageCount regions)
                         @ '' achievements'', ToastSuccess)\<rparr>"
    by (rule generateAchievementsYAML_expected)
next
  show "length (expectedAchievements worldType regions) = 2 * length regions + villageCount regions"
    by (rule length_expectedAchievements)
next
  assume "singleLineNames regions"
  then show "entryKeys (expectedAchievementsFile worldType regions)
          = map ach_key (expectedAchievements worldType regions)"
    by (intro entryKeys_file oneLineEntry_expected)
next
  assume "length regions = 2 \<and> villageCount regions = 0"
  then show "length (expectedAchievements worldType regions) = 4"
    by (simp add: length_expectedAchievements)
next
  assume "length regions = 2 \<and> villageCount regions = 1"
  then show "length (expectedAchievements worldType regions) = 5"
    by (simp add: length_expectedAchievements)
qed

lemma sample_keys:
  "replaceWhiteSpace [] ''Haven'' = ''Haven''"
  "replaceWhiteSpace [] ''The Wilds'' = ''TheWilds''"
  "replaceWhiteSpace [] ''Oak Ridge'' = ''OakRidge''"
  by (simp_all add: isWhiteSpace_def replaceWhiteSpace.simps)

theorem achievements_entry_count_witness:
  "[haven, wilds] \<noteq> []
   \<and> length [haven, wilds] = 2 \<and> villageCount [haven, wilds] = 0
   \<and> singleLineNames [haven, wilds]
   \<and> generateAchievementsYAML [haven, wilds] None
       = \<lparr>download = Some (''achievements.yml'', expectedAchievementsFile None [haven, wilds]),
          toast = Some (''Generated 4 achievements'', ToastSuccess)\<rparr>
   \<and> entryKeys (expectedAchievementsFile None [haven, wilds])
       = [''discoverHaven'', ''discoverHeartOfHaven'',
          ''discoverTheWilds'', ''discoverHeartOfTheWilds'']
   \<and> villageCount [haven, wilds\<lparr>subregions := [oakridge]\<rparr>] = 1
   \<and> singleLineNames [haven, wilds\<lparr>subregions := [oakridge]\<rparr>]
   \<and> generateAchievementsYAML [haven, wilds\<lparr>subregions := [oakridge]\<rparr>] None
       = \<lparr>download = Some (''achievements.yml'',
                 expectedAchievementsFile None [haven, wilds\<lparr>subregions := [oakridge]\<rparr>]),
          toast = Some (''Generated 5 achievements'', ToastSuccess)\<rparr>
   \<and> entryKeys (expectedAchievementsFile None [haven, wilds\<lparr>subregions := [oakridge]\<rparr>])
       = [''discoverHaven'', ''discoverHeartOfHaven'',
          ''discoverTheWilds'', ''discoverHeartOfTheWilds'', ''discoverOakRidge'']"
proof -
  have v0: "villageCount [haven, wilds] = 0"
    by (simp add: villageCount_def villages_def haven_def wilds_def)
  have v1: "villageCount [haven, wilds\<lparr>subregions := [oakridge]\<rparr>] = 1"
    by (simp add: villageCount_def villages_def haven_def wilds_def oakridge_def)
  have n0: "singleLineNames [haven, wilds]"
    by (simp add: singleLineNames_def villages_def haven_def wilds_def)
  have n1: "singleLineNames [haven, wilds\<lparr>subregions := [oakridge]\<rparr>]"
    by (simp add: singleLineNames_def villages_def haven_def wilds_def oakridge_def)
  have s: "showNat 4 = ''4''" "showNat 5 = ''5''" by (simp_all add: showNat.simps)
  have k0: "map ach_key (expectedAchievements None [haven, wilds])
      = [''discoverHaven'', ''discoverHeartOfHaven'',
         ''discoverTheWilds'', ''discoverHeartOfTheWilds'']"
    by (simp add: expectedAchievements_def regionDiscovery_def heartDiscovery_def villages_def
        haven_def wilds_def sample_keys)
  have k1: "map ach_key (expectedAchievements None [haven, wilds\<lparr>subregions := [oakridge]\<rparr>])
      = [''discoverHaven'', ''discoverHeartOfHaven'',
         ''discoverTheWilds'', ''discoverHeartOfTheWilds'', ''discoverOakRidge'']"
    by (simp add: expectedAchievements_def regionDiscovery_def heartDiscovery_def
        villageDiscovery_def villages_def haven_def wilds_def oakridge_def sample_keys)
  show ?thesis
    using achievements_entry_count [of "[haven, wilds]" None]
      achievements_entry_count [of "[haven, wilds\<lparr>subregions := [oakridge]\<rparr>]" None]
    by (simp add: v0 v1 n0 n1 s k0 k1)
qed

subsection \<open>Mob-leveling rules export\<close>

text \<open>
  \<^verbatim>\<open>generateLevelledMobsRulesYAML\<close>. The spawn coordinates are an object or absent. The
  heart rule and the village rule are the same seven lines around a list of region keys
  (\<open>regionListRule\<close>). \<open>now\<close> is the text of \<^verbatim>\<open>new Date().toISOString()\<close>. The last
  loop appends a rule for a region when \<^verbatim>\<open>region.challengeLevel\<close> is truthy, that
  is, when the level is set: each of the five level names is a non-empty string.
\<close>

record SpawnCoordinates =
  spawn_x :: real
  spawn_z :: real
  spawn_radius :: "real option"

definition levelledMobsHeader :: "string \<Rightarrow> string \<Rightarrow> string" where
  "levelledMobsHeader worldName now =
    ''# LevelledMobs Rules Configuration\<newline>''
    @ ''# Generated for world: '' @ worldName @ ''\<newline>''
    @ ''# Generated on: '' @ now @ ''\<newline>\<newline>''"

definition spawnRule :: string where
  "spawnRule =
    ''# Spawn region rule\<newline>''
    @ ''- custom-rule: 'Disable Leveling in Spawn Region'\<newline>''
    @ ''  is-enabled: true\<newline>''
    @ ''  use-preset: challenge-vanilla\<newline>''
    @ ''  conditions:\<newline>''
    @ ''    worlds: 'world'\<newline>''
    @ ''    worldguard-regions: 'spawn'\<newline>\<newline>''"

definition regionListRule :: "string \<Rightarrow> string \<Rightarrow> string list \<Rightarrow> string" where
  "regionListRule heading title regionKeys =
    ''# '' @ heading @ ''\<newline>''
    @ ''- custom-rule: '' @ [CHR 0x27] @ title @ [CHR 0x27] @ ''\<newline>''
    @ ''  is-enabled: true\<newline>''
    @ ''  use-preset: challenge-vanilla\<newline>''
    @ ''  conditions:\<newline>''
    @ ''    worlds: 'world'\<newline>''
    @ ''    worldguard-regions:\<newline>''
    @ concat (map (\<lambda>region. ''      - '' @ [CHR 0x27] @ region @ [CHR 0x27] @ ''\<newline>'') regionKeys)
    @ ''\<newline>''"

definition challengePresetRule :: "Region \<Rightarrow> ChallengeLevel \<Rightarrow> string" where
  "challengePresetRule region level =
    (let presetName = ''challenge-'' @ toLowerCase (levelName level);
         regionName = replaceWhiteSpace ''_'' (toLowerCase (name region))
     in ''- custom-rule: '' @ [CHR 0x27] @ name region @ '' - '' @ levelName level
          @ '' Challenge'' @ [CHR 0x27] @ ''\<newline>''
        @ ''  is-enabled: true\<newline>''
        @ ''  use-preset: '' @ presetName @ ''\<newline>''
        @ ''  conditions:\<newline>''
        @ ''    worlds: 'world'\<newline>''
        @ ''    worldguard-regions: '' @ [CHR 0x27] @ regionName @ [CHR 0x27] @ ''\<newline>\<newline>'')"

definition challengeRuleOfRegion :: "Region \<Rightarrow> string \<times> nat \<Rightarrow> string \<times> nat" where
  "challengeRuleOfRegion region = (\<lambda>(yamlContent, ruleCount).
     case challengeLevel region of
       Some level \<Rightarrow> (yamlContent @ challengePresetRule region level, ruleCount + 1)
     | None \<Rightarrow> (yamlContent, ruleCount))"

definition generateLevelledMobsRulesYAML ::
  "Region list \<Rightarrow> string \<Rightarrow> SpawnCoordinates option \<Rightarrow> WorldType option \<Rightarrow> string \<Rightarrow> ExportResult" where
  "generateLevelledMobsRulesYAML regions worldName spawnCoordinates worldType now =
    (if length regions = 0 \<and> spawnCoordinates = None then
       \<lparr>download = None,
        toast = Some (''No regions or spawn to generate LevelledMobs rules for'', ToastError)\<rparr>
     else
       let yamlContent = levelledMobsHeader worldName now;
           ruleCount = 0 :: nat;
           (yamlContent, ruleCount) =
             (if spawnCoordinates \<noteq> None then (yamlContent @ spawnRule, ruleCount + 1)
              else (yamlContent, ruleCount));
           heartRegions = map (\<lambda>region.
               ''heart_of_'' @ replaceWhiteSpace ''_'' (toLowerCase (name region))) regions;
           (yamlContent, ruleCount) =
             (if length heartRegions > 0
              then (yamlContent @ regionListRule ''Heart regions rule''
                      ''Disable Leveling in Heart Regions'' heartRegions, ruleCount + 1)
              else (yamlContent, ruleCount));
           villageRegions = concat (map (\<lambda>region.
               map (\<lambda>subregion. replaceWhiteSpace ''_'' (toLowerCase (sub_name subregion)))
                 (filter (\<lambda>subregion. sub_type subregion = ''village'') (subregions region)))
               regions);
           (yamlContent, ruleCount) =
             (if length villageRegions > 0
              then (yamlContent @ regionListRule ''Village regions rule''
                      ''Disable Leveling in Village Regions'' villageRegions, ruleCount + 1)
              else (yamlContent, ruleCount));
           yamlContent = yamlContent @ ''# Region-specific challenge presets\<newline>'';
           (yamlContent, ruleCount) = fold challengeRuleOfRegion regions (yamlContent, ruleCount)
       in \<lparr>download = Some (worldName @ ''-rules.yml'', yamlContent),
           toast = Some (''Generated '' @ showNat ruleCount @ '' LevelledMobs rules'', ToastSuccess)\<rparr>)"

text \<open>The rule a region contributes to the last part of the file: none, or its preset rule.\<close>

definition challengeRuleFor :: "Region \<Rightarrow> string" where
  "challengeRuleFor region =
    (case challengeLevel region of
       None \<Rightarrow> []
     | Some level \<Rightarrow> challengePresetRule region level)"

lemma fold_challengeRuleOfRegion:
  "fold challengeRuleOfRegion regions (y, c)
     = (y @ concat (map challengeRuleFor regions),
        c + length (filter (\<lambda>region. challengeLevel region \<noteq> None) regions))"
  by (induction regions arbitrary: y c)
     (auto simp: challengeRuleOfRegion_def challengeRuleFor_def split: option.splits)

lemma challengePresetRule_nonempty: "challengePresetRule region level \<noteq> []"
  by (simp add: challengePresetRule_def Let_def)

lemma challengeRuleFor_empty_iff: "challengeRuleFor region = [] \<longleftrightarrow> challengeLevel region = None"
  by (simp add: challengeRuleFor_def challengePresetRule_nonempty split: option.splits)

definition villageKeys :: "Region list \<Rightarrow> string list" where
  "villageKeys regions =
    concat (map (\<lambda>region.
      map (\<lambda>subregion. replaceWhiteSpace ''_'' (toLowerCase (sub_name subregion)))
        (villages region)) regions)"

definition heartKeys :: "Region list \<Rightarrow> string list" where
  "heartKeys regions =
    map (\<lambda>region. ''heart_of_'' @ replaceWhiteSpace ''_'' (toLowerCase (name region))) regions"

text \<open>
  C2, amended. The file ends with one preset rule for each region whose challenge
  level is set, in the order of the regions, and a region contributes a rule if and
  only if its level is set; a level set to \<open>Vanilla\<close> counts as set. The count in the
  toast is the number of rules in the file.
\<close>

theorem levelledMobs_challenge_rules:
  "(\<not> (length regions = 0 \<and> spawnCoordinates = None) \<longrightarrow>
      generateLevelledMobsRulesYAML regions worldName spawnCoordinates worldType now
        = \<lparr>download = Some (worldName @ ''-rules.yml'',
              levelledMobsHeader worldName now
              @ (if spawnCoordinates \<noteq> None then spawnRule else [])
              @ (if regions \<noteq> []
                 then regionListRule ''Heart regions rule'' ''Disable Leveling in Heart Regions''
                        (heartKeys regions)
                 else [])
              @ (if villageKeys regions \<noteq> []
                 then regionListRule ''Village regions rule'' ''Disable Leveling in Village Regions''
                        (villageKeys regions)
                 else [])
              @ ''# Region-specific challenge presets\<newline>''
              @ concat (map challengeRuleFor regions)),
           toast = Some (''Generated ''
              @ showNat ((if spawnCoordinates \<noteq> None then 1 else 0)
                         + (if regions \<noteq> [] then 1 else 0)
                         + (if villageKeys regions \<noteq> [] then 1 else 0)
                         + length (filter (\<lambda>region. challengeLevel region \<noteq> None) regions))
              @ '' LevelledMobs rules'', ToastSuccess)\<rparr>)
   \<and> (challengeRuleFor region \<noteq> [] \<longleftrightarrow> challengeLevel region \<noteq> None)
   \<and> (challengeLevel region = Some level \<longrightarrow> challengeRuleFor region = challengePresetRule region level)"
proof (intro conjI)
  show "challengeRuleFor region \<noteq> [] \<longleftrightarrow> challengeLevel region \<noteq> None"
    by (simp add: challengeRuleFor_empty_iff)
  show "challengeLevel region = Some level \<longrightarrow> challengeRuleFor region = challengePresetRule region level"
    by (simp add: challengeRuleFor_def)
qed (simp add: generateLevelledMobsRulesYAML_def Let_def fold_challengeRuleOfRegion
      villageKeys_def heartKeys_def villages_def)

text \<open>
  C2, as stated, fails: a region whose level is set to the default \<open>Vanilla\<close> gets a
  preset rule, \<open>use-preset: challenge-vanilla\<close>.
\<close>

theorem levelledMobs_vanilla_rule_emitted:
  "challengeLevel haven = Some Vanilla
   \<and> generateLevelledMobsRulesYAML [haven] ''world'' None None ''2026-01-01T00:00:00.000Z''
     = \<lparr>download = Some (''world-rules.yml'',
          ''# LevelledMobs Rules Configuration\<newline>'' @
          ''# Generated for world: world\<newline>'' @
          ''# Generated on: 2026-01-01T00:00:00.000Z\<newline>'' @
          ''\<newline>'' @
          ''# Heart regions rule\<newline>'' @
          ''- custom-rule: 'Disable Leveling in Heart Regions'\<newline>'' @
          ''  is-enabled: true\<newline>'' @
          ''  use-preset: challenge-vanilla\<newline>'' @
          ''  conditions:\<newline>'' @
          ''    worlds: 'world'\<newline>'' @
          ''    worldguard-regions:\<newline>'' @
          ''      - 'heart_of_haven'\<newline>'' @
          ''\<newline>'' @
          ''# Region-specific challenge presets\<newline>'' @
          ''- custom-rule: 'Haven - Vanilla Challenge'\<newline>'' @
          ''  is-enabled: true\<newline>'' @
          ''  use-preset: challenge-vanilla\<newline>'' @
          ''  conditions:\<newline>'' @
          ''    worlds: 'world'\<newline>'' @
          ''    worldguard-regions: 'haven'\<newline>'' @
          ''\<newline>''),
        toast = Some (''Generated 2 LevelledMobs rules'', ToastSuccess)\<rparr>"
  by (simp add: generateLevelledMobsRulesYAML_def haven_def levelledMobsHeader_def
      regionListRule_def challengeRuleOfRegion_def challengePresetRule_def levelName_def
      toLowerCase_def replaceWhiteSpace.simps isWhiteSpace_def showNat.simps)

theorem levelledMobs_challenge_rules_witness:
  "\<not> (length [haven, wilds] = 0 \<and> (None :: SpawnCoordinates option) = None)
   \<and> download (generateLevelledMobsRulesYAML [haven, wilds] ''world'' None None ''now'')
       = Some (''world-rules.yml'',
           levelledMobsHeader ''world'' ''now''
           @ regionListRule ''Heart regions rule'' ''Disable Leveling in Heart Regions''
               [''heart_of_haven'', ''heart_of_the_wilds'']
           @ ''# Region-specific challenge presets\<newline>''
           @ challengePresetRule haven Vanilla)
   \<and> toast (generateLevelledMobsRulesYAML [haven, wilds] ''world'' None None ''now'')
       = Some (''Generated 2 LevelledMobs rules'', ToastSuccess)
   \<and> challengeLevel haven = Some Vanilla
   \<and> challengeRuleFor haven = challengePresetRule haven Vanilla
   \<and> challengeRuleFor haven \<noteq> []
   \<and> challengeLevel wilds = None
   \<and> challengeRuleFor wilds = []"
  using levelledMobs_challenge_rules [of "[haven, wilds]" None "''world''" None "''now''" haven Vanilla]
    levelledMobs_challenge_rules [of "[haven, wilds]" None "''world''" None "''now''" wilds Vanilla]
  by (simp add: haven_def wilds_def heartKeys_def villageKeys_def villages_def challengeRuleFor_def
      toLowerCase_def replaceWhiteSpace.simps isWhiteSpace_def showNat.simps)

subsection \<open>Project import\<close>

text \<open>
  A JSON value, and the truth value JavaScript gives it (\<open>None\<close> is \<^verbatim>\<open>undefined\<close>).
\<close>

datatype json =
  JNull | JBool bool | JNumber real | JString string | JArray "json list"
  | JObject "(string \<times> json) list"

fun truthy :: "json option \<Rightarrow> bool" where
  "truthy None = False"
| "truthy (Some JNull) = False"
| "truthy (Some (JBool b)) = b"
| "truthy (Some (JNumber n)) = (n \<noteq> 0)"
| "truthy (Some (JString s)) = (s \<noteq> [])"
| "truthy (Some (JArray xs)) = True"
| "truthy (Some (JObject kvs)) = True"

text \<open>
  What reading and parsing the file gives \<^verbatim>\<open>importMapData\<close>: the reader fails, or
  \<^verbatim>\<open>JSON.parse\<close> throws, or it returns a value.
\<close>

datatype FileRead = Unreadable | NotJSON | Parsed json

text \<open>
  The \<^verbatim>\<open>try\<close> block of the \<^verbatim>\<open>onload\<close> handler; \<open>Inl\<close> is a throw. A property read on
  \<^verbatim>\<open>null\<close> throws; on a boolean, a number, a string or an array the properties
  \<^verbatim>\<open>version\<close>, \<^verbatim>\<open>regions\<close> and \<^verbatim>\<open>mapState\<close> are \<^verbatim>\<open>undefined\<close>. An object is the list
  of its properties, and assigning \<^verbatim>\<open>worldName\<close> replaces the property or appends it.
  The function \<^verbatim>\<open>validateImportData\<close> of the same file is not called here.
\<close>

definition onloadBody :: "json option \<Rightarrow> error + json" where
  "onloadBody parsed =
    (case parsed of
       None \<Rightarrow> Inl SyntaxError
     | Some data \<Rightarrow>
         (case data of
            JNull \<Rightarrow> Inl TypeError
          | JObject kvs \<Rightarrow>
              if \<not> truthy (map_of kvs ''version'') \<or> \<not> truthy (map_of kvs ''regions'')
                 \<or> \<not> truthy (map_of kvs ''mapState'')
              then Inl (Error ''Invalid file format'')
              else if \<not> truthy (map_of kvs ''worldName'')
              then Inr (JObject (AList.update ''worldName'' (JString ''world'') kvs))
              else Inr data
          | _ \<Rightarrow> Inl (Error ''Invalid file format'')))"

text \<open>
  The promise: \<open>Inr\<close> when it resolves, \<open>Inl\<close> when it rejects. The \<^verbatim>\<open>catch\<close> turns every
  throw into the same error.
\<close>

definition importMapData :: "FileRead \<Rightarrow> error + json" where
  "importMapData file =
    (case file of
       Unreadable \<Rightarrow> Inl (Error ''Failed to read import file'')
     | _ \<Rightarrow>
         (case onloadBody (case file of Parsed data \<Rightarrow> Some data | _ \<Rightarrow> None) of
            Inl e \<Rightarrow> Inl (Error ''Failed to parse import file'')
          | Inr data \<Rightarrow> Inr data))"

text \<open>
  The inputs the import accepts, the property read on the parsed value, and the document
  returned for an accepted input.
\<close>

definition accepted :: "FileRead \<Rightarrow> bool" where
  "accepted file =
    (case file of
       Parsed (JObject kvs) \<Rightarrow>
         truthy (map_of kvs ''version'') \<and> truthy (map_of kvs ''regions'')
         \<and> truthy (map_of kvs ''mapState'')
     | _ \<Rightarrow> False)"

definition field :: "json \<Rightarrow> string \<Rightarrow> json option" where
  "field data key = (case data of JObject kvs \<Rightarrow> map_of kvs key | _ \<Rightarrow> None)"

definition withDefaultWorldName :: "json \<Rightarrow> json" where
  "withDefaultWorldName data =
    (case data of
       JObject kvs \<Rightarrow>
         if truthy (map_of kvs ''worldName'') then data
         else JObject (AList.update ''worldName'' (JString ''world'') kvs)
     | _ \<Rightarrow> data)"

lemma importMapData_accepts:
  "accepted (Parsed data) \<Longrightarrow> importMapData (Parsed data) = Inr (withDefaultWorldName data)"
  by (auto simp: accepted_def importMapData_def onloadBody_def withDefaultWorldName_def
      split: json.splits)

lemma importMapData_rejects:
  "\<not> accepted file \<Longrightarrow>
   importMapData file = Inl (Error (if file = Unreadable then ''Failed to read import file''
                                    else ''Failed to parse import file''))"
  by (auto simp: accepted_def importMapData_def onloadBody_def
      split: FileRead.splits json.splits)

lemma field_worldName_default:
  "\<not> truthy (field data ''worldName'') \<Longrightarrow> accepted (Parsed data) \<Longrightarrow>
   field (withDefaultWorldName data) ''worldName'' = Some (JString ''world'')"
  by (auto simp: field_def withDefaultWorldName_def accepted_def update_conv' split: json.splits)

text \<open>
  C3, amended. The import resolves exactly for the inputs that parse to an object
  whose \<^verbatim>\<open>version\<close>, \<^verbatim>\<open>regions\<close> and \<^verbatim>\<open>mapState\<close> are all truthy, and rejects with an
  error every other input. An accepted input without a truthy \<^verbatim>\<open>worldName\<close> comes back
  with \<^verbatim>\<open>worldName\<close> equal to \<open>world\<close>; every other accepted input comes back
  unchanged.
\<close>

theorem importMapData_validation:
  "(accepted file \<longrightarrow>
      (\<exists>data. file = Parsed data \<and> importMapData file = Inr (withDefaultWorldName data)
         \<and> (\<not> truthy (field data ''worldName'')
              \<longrightarrow> field (withDefaultWorldName data) ''worldName'' = Some (JString ''world''))
         \<and> (truthy (field data ''worldName'') \<longrightarrow> withDefaultWorldName data = data)))
   \<and> (\<not> accepted file \<longrightarrow> (\<exists>message. importMapData file = Inl (Error message)))
   \<and> (accepted file \<longleftrightarrow>
        (\<exists>data. file = Parsed data \<and> (\<exists>kvs. data = JObject kvs)
           \<and> truthy (field data ''version'') \<and> truthy (field data ''regions'')
           \<and> truthy (field data ''mapState'')))"
proof (intro conjI impI)
  assume a: "accepted file"
  then obtain data where d: "file = Parsed data"
    by (auto simp: accepted_def split: FileRead.splits)
  show "\<exists>data. file = Parsed data \<and> importMapData file = Inr (withDefaultWorldName data)
         \<and> (\<not> truthy (field data ''worldName'')
              \<longrightarrow> field (withDefaultWorldName data) ''worldName'' = Some (JString ''world''))
         \<and> (truthy (field data ''worldName'') \<longrightarrow> withDefaultWorldName data = data)"
  proof (intro exI [of _ data] conjI impI)
    show "file = Parsed data" by (rule d)
    show "importMapData file = Inr (withDefaultWorldName data)"
      using a d importMapData_accepts by simp
    show "field (withDefaultWorldName data) ''worldName'' = Some (JString ''world'')"
      if "\<not> truthy (field data ''worldName'')"
      using that a d field_worldName_default by simp
    show "withDefaultWorldName data = data" if "truthy (field data ''worldName'')"
      using that by (auto simp: withDefaultWorldName_def field_def split: json.splits)
  qed
next
  assume "\<not> accepted file"
  then show "\<exists>message. importMapData file = Inl (Error message)"
    using importMapData_rejects by blast
next
  show "accepted file \<longleftrightarrow>
        (\<exists>data. file = Parsed data \<and> (\<exists>kvs. data = JObject kvs)
           \<and> truthy (field data ''version'') \<and> truthy (field data ''regions'')
           \<and> truthy (field data ''mapState''))"
    by (auto simp: accepted_def field_def split: FileRead.splits json.splits)
qed

text \<open>
  C3, as stated, fails: a document whose \<^verbatim>\<open>regions\<close> is a string, not a sequence, and
  whose \<^verbatim>\<open>mapState\<close> is an object without \<^verbatim>\<open>exportDate\<close> (the document has no
  \<^verbatim>\<open>exportDate\<close> anywhere) is accepted.
\<close>

definition looseDocument :: json where
  "looseDocument = JObject [(''version'', JString ''1.0.0''), (''regions'', JString ''none''),
     (''mapState'', JObject [])]"

theorem importMapData_accepts_loose_document:
  "importMapData (Parsed looseDocument)
     = Inr (JObject [(''version'', JString ''1.0.0''), (''regions'', JString ''none''),
              (''mapState'', JObject []), (''worldName'', JString ''world'')])"
  by (simp add: importMapData_def onloadBody_def looseDocument_def)

theorem importMapData_validation_witness:
  "accepted (Parsed looseDocument)
   \<and> importMapData (Parsed looseDocument) = Inr (withDefaultWorldName looseDocument)
   \<and> \<not> truthy (field looseDocument ''worldName'')
   \<and> field (withDefaultWorldName looseDocument) ''worldName'' = Some (JString ''world'')
   \<and> \<not> accepted (Parsed (JObject [(''regions'', JArray []), (''mapState'', JObject [])]))
   \<and> importMapData (Parsed (JObject [(''regions'', JArray []), (''mapState'', JObject [])]))
       = Inl (Error ''Failed to parse import file'')
   \<and> \<not> accepted NotJSON
   \<and> importMapData NotJSON = Inl (Error ''Failed to parse import file'')"
proof -
  have a: "accepted (Parsed looseDocument)"
    by (simp add: accepted_def looseDocument_def)
  have n: "\<not> truthy (field looseDocument ''worldName'')"
    by (simp add: field_def looseDocument_def)
  have r: "\<not> accepted (Parsed (JObject [(''regions'', JArray []), (''mapState'', JObject [])]))"
    "\<not> accepted NotJSON"
    by (simp_all add: accepted_def)
  have v: "importMapData (Parsed (JObject [(''regions'', JArray []), (''mapState'', JObject [])]))
       = Inl (Error ''Failed to parse import file'')"
    "importMapData NotJSON = Inl (Error ''Failed to parse import file'')"
    by (simp_all add: importMapData_def onloadBody_def)
  from importMapData_validation [of "Parsed looseDocument"] a n
  have "importMapData (Parsed looseDocument) = Inr (withDefaultWorldName looseDocument)"
    and "field (withDefaultWorldName looseDocument) ''worldName'' = Some (JString ''world'')"
    by auto
  with a n r v show ?thesis by simp
qed

subsection \<open>The spawn checkbox\<close>

text \<open>
  Modelled from the spec: \<^verbatim>\<open>regions.updateRegion(id, updates)\<close> of the regions context,
  which is not among the sources. It is the field edit of section 3 of the
  specification: the region with that id takes the fields of \<open>updates\<close>, every other
  region is unchanged, and successive calls apply one after the other.
\<close>

definition updateRegion :: "string \<Rightarrow> (Region \<Rightarrow> Region) \<Rightarrow> Region list \<Rightarrow> Region list" where
  "updateRegion ident updates regions =
    map (\<lambda>region. if region_id region = ident then updates region else region) regions"

text \<open>
  The \<^verbatim>\<open>onChange\<close> handler of the checkbox in \<^verbatim>\<open>AdvancedPanel.tsx\<close>, with
  \<open>regionId\<close> the selected region and \<open>checked\<close> the new state of the box. The loop
  runs over the regions as they were when the handler started.
\<close>

definition onHasSpawnChange :: "Region list \<Rightarrow> string \<Rightarrow> bool \<Rightarrow> Region list" where
  "onHasSpawnChange regions regionId checked =
    (let cleared =
           (if checked then
              fold (\<lambda>region current.
                      if region_id region \<noteq> regionId \<and> hasSpawn region
                      then updateRegion (region_id region) (\<lambda>r. r\<lparr>hasSpawn := False\<rparr>) current
                      else current)
                   regions regions
            else regions)
     in updateRegion regionId (\<lambda>r. r\<lparr>hasSpawn := checked\<rparr>) cleared)"

text \<open>The body of the clearing loop, and what the loop leaves.\<close>

lemma updateRegion_length [simp]: "length (updateRegion i u rs) = length rs"
  by (simp add: updateRegion_def)

lemma updateRegion_ids [simp]: "map region_id (updateRegion i (\<lambda>r. r\<lparr>hasSpawn := b\<rparr>) rs) = map region_id rs"
  by (simp add: updateRegion_def comp_def)

definition clearStep :: "string \<Rightarrow> Region \<Rightarrow> Region list \<Rightarrow> Region list" where
  "clearStep regionId region current =
    (if region_id region \<noteq> regionId \<and> hasSpawn region
     then updateRegion (region_id region) (\<lambda>r. r\<lparr>hasSpawn := False\<rparr>) current
     else current)"

lemma clearStep_map:
  "clearStep regionId t current
     = map (\<lambda>r. if region_id t \<noteq> regionId \<and> hasSpawn t \<and> region_id r = region_id t
                 then r\<lparr>hasSpawn := False\<rparr> else r) current"
  by (simp add: clearStep_def updateRegion_def)

lemma fold_clearStep:
  "fold (clearStep regionId) todo current
     = map (\<lambda>r. if region_id r \<noteq> regionId
                    \<and> (\<exists>t \<in> set todo. region_id t = region_id r \<and> hasSpawn t)
                 then r\<lparr>hasSpawn := False\<rparr> else r) current"
proof (induction todo arbitrary: current)
  case Nil
  then show ?case by simp
next
  case (Cons t todo)
  have "fold (clearStep regionId) (t # todo) current
      = fold (clearStep regionId) todo (clearStep regionId t current)"
    by simp
  also have "\<dots> = map (\<lambda>r. if region_id r \<noteq> regionId
                    \<and> (\<exists>t \<in> set todo. region_id t = region_id r \<and> hasSpawn t)
                 then r\<lparr>hasSpawn := False\<rparr> else r) (clearStep regionId t current)"
    by (rule Cons.IH)
  also have "\<dots> = map (\<lambda>r. if region_id r \<noteq> regionId
                    \<and> (\<exists>t \<in> set (t # todo). region_id t = region_id r \<and> hasSpawn t)
                 then r\<lparr>hasSpawn := False\<rparr> else r) current"
    unfolding clearStep_map map_map
    by (rule map_cong [OF refl]) auto
  finally show ?case .
qed

lemma cleared_spawn:
  assumes "r \<in> set (fold (clearStep regionId) regions regions)" and "hasSpawn r"
  shows "region_id r = regionId"
proof (rule ccontr)
  assume ne: "region_id r \<noteq> regionId"
  from assms(1) obtain r0 where r0: "r0 \<in> set regions"
    and r: "r = (if region_id r0 \<noteq> regionId
                   \<and> (\<exists>t \<in> set regions. region_id t = region_id r0 \<and> hasSpawn t)
                 then r0\<lparr>hasSpawn := False\<rparr> else r0)"
    unfolding fold_clearStep by auto
  show False
  proof (cases "region_id r0 \<noteq> regionId
                   \<and> (\<exists>t \<in> set regions. region_id t = region_id r0 \<and> hasSpawn t)")
    case True
    with r assms(2) show False by simp
  next
    case False
    with r have "r = r0" by simp
    with False r0 assms(2) ne show False by auto
  qed
qed

lemma onHasSpawnChange_checked:
  "onHasSpawnChange regions regionId True
     = map (\<lambda>r. if region_id r = regionId then r\<lparr>hasSpawn := True\<rparr> else r)
         (fold (clearStep regionId) regions regions)"
  by (simp add: onHasSpawnChange_def updateRegion_def clearStep_def [abs_def])

lemma filter_key_absent:
  assumes "v \<notin> f ` set xs"
  shows "filter (\<lambda>x. f x = v) xs = []"
  using assms by (induction xs) auto

lemma filter_single:
  assumes "distinct (map f xs)" and "a \<in> set xs"
  shows "filter (\<lambda>x. f x = f a) xs = [a]"
  using assms
proof (induction xs)
  case Nil
  then show ?case by simp
next
  case (Cons x xs)
  show ?case
  proof (cases "x = a")
    case True
    have "f a \<notin> f ` set xs" using Cons.prems(1) True by simp
    then have "filter (\<lambda>y. f y = f a) xs = []" by (rule filter_key_absent)
    with True show ?thesis by simp
  next
    case False
    with Cons.prems have "a \<in> set xs" "f x \<noteq> f a" by auto
    with Cons show ?thesis by simp
  qed
qed

lemma filter_key_at_most_one:
  assumes "distinct (map f xs)"
  shows "length (filter (\<lambda>x. f x = v) xs) \<le> 1"
  using assms
proof (induction xs)
  case Nil
  then show ?case by simp
next
  case (Cons x xs)
  show ?case
  proof (cases "f x = v")
    case True
    then have "v \<notin> f ` set xs" using Cons.prems by auto
    then have "filter (\<lambda>y. f y = v) xs = []" by (rule filter_key_absent)
    with True show ?thesis by simp
  next
    case False
    with Cons show ?thesis by simp
  qed
qed

text \<open>
  C5. In a collection whose ids are distinct, checking the box of a region \<open>b\<close> of the
  collection leaves exactly one region with \<open>hasSpawn\<close>, namely \<open>b\<close>, however many
  regions had it before, and changes nothing else than spawn flags. Checking or
  unchecking any box keeps a collection with at most one spawn region that way.
\<close>

theorem spawn_mutator_single:
  "(distinct (map region_id regions) \<and> b \<in> set regions \<longrightarrow>
      filter hasSpawn (onHasSpawnChange regions (region_id b) True) = [b\<lparr>hasSpawn := True\<rparr>]
      \<and> length (filter hasSpawn (onHasSpawnChange regions (region_id b) True)) = 1
      \<and> map region_id (onHasSpawnChange regions (region_id b) True) = map region_id regions)
   \<and> (distinct (map region_id regions) \<and> length (filter hasSpawn regions) \<le> 1 \<longrightarrow>
      length (filter hasSpawn (onHasSpawnChange regions regionId checked)) \<le> 1)"
proof (intro conjI impI)
  assume h: "distinct (map region_id regions) \<and> b \<in> set regions"
  let ?cleared = "fold (clearStep (region_id b)) regions regions"
  let ?res = "onHasSpawnChange regions (region_id b) True"
  have res: "?res = map (\<lambda>r. if region_id r = region_id b then r\<lparr>hasSpawn := True\<rparr> else r) ?cleared"
    by (rule onHasSpawnChange_checked)
  have cleared_b: "?cleared = map (\<lambda>r. if region_id r \<noteq> region_id b
                    \<and> (\<exists>t \<in> set regions. region_id t = region_id r \<and> hasSpawn t)
                 then r\<lparr>hasSpawn := False\<rparr> else r) regions"
    by (rule fold_clearStep)
  have res2: "?res = map (\<lambda>r. if region_id r = region_id b then r\<lparr>hasSpawn := True\<rparr>
                    else if hasSpawn r then r\<lparr>hasSpawn := False\<rparr> else r) regions"
    unfolding res cleared_b map_map
    by (rule map_cong [OF refl]) auto
  have "filter hasSpawn ?res
      = map (\<lambda>r. r\<lparr>hasSpawn := True\<rparr>) (filter (\<lambda>r. region_id r = region_id b) regions)"
    unfolding res2 filter_map
    by (induction regions) auto
  also have "filter (\<lambda>r. region_id r = region_id b) regions = [b]"
    using h by (intro filter_single) auto
  finally show one: "filter hasSpawn ?res = [b\<lparr>hasSpawn := True\<rparr>]" by simp
  then show "length (filter hasSpawn ?res) = 1" by simp
  show "map region_id ?res = map region_id regions"
    unfolding res2 by (induction regions) auto
next
  assume h: "distinct (map region_id regions) \<and> length (filter hasSpawn regions) \<le> 1"
  show "length (filter hasSpawn (onHasSpawnChange regions regionId checked)) \<le> 1"
  proof (cases checked)
    case False
    have "onHasSpawnChange regions regionId False
        = map (\<lambda>r. if region_id r = regionId then r\<lparr>hasSpawn := False\<rparr> else r) regions"
      by (simp add: onHasSpawnChange_def updateRegion_def)
    then have "length (filter hasSpawn (onHasSpawnChange regions regionId False))
        \<le> length (filter hasSpawn regions)"
      by (simp add: filter_map comp_def) (rule length_filter_mono, auto)
    with h False show ?thesis by simp
  next
    case True
    let ?res = "onHasSpawnChange regions regionId True"
    have res2: "?res = map (\<lambda>r. if region_id r = regionId then r\<lparr>hasSpawn := True\<rparr>
                    else if hasSpawn r then r\<lparr>hasSpawn := False\<rparr> else r) regions"
      unfolding onHasSpawnChange_checked fold_clearStep map_map
      by (rule map_cong [OF refl]) auto
    have "length (filter hasSpawn ?res) = length (filter (\<lambda>r. region_id r = regionId) regions)"
      unfolding res2 filter_map by (induction regions) auto
    also have "\<dots> \<le> 1"
      using h by (intro filter_key_at_most_one) simp
    finally show ?thesis using True by simp
  qed
qed

theorem spawn_mutator_single_witness:
  "distinct (map region_id [spawnTown, haven, wilds]) \<and> haven \<in> set [spawnTown, haven, wilds]
   \<and> hasSpawn spawnTown \<and> \<not> hasSpawn haven
   \<and> onHasSpawnChange [spawnTown, haven, wilds] (region_id haven) True
       = [spawnTown\<lparr>hasSpawn := False\<rparr>, haven\<lparr>hasSpawn := True\<rparr>, wilds]
   \<and> filter hasSpawn (onHasSpawnChange [spawnTown, haven, wilds] (region_id haven) True)
       = [haven\<lparr>hasSpawn := True\<rparr>]
   \<and> length (filter hasSpawn [spawnTown, haven, wilds]) \<le> 1
   \<and> length (filter hasSpawn (onHasSpawnChange [spawnTown, haven, wilds] ''r2'' False)) \<le> 1"
proof -
  have d: "distinct (map region_id [spawnTown, haven, wilds])"
    by (simp add: spawnTown_def haven_def wilds_def)
  have f: "hasSpawn spawnTown" "\<not> hasSpawn haven" "\<not> hasSpawn wilds"
    by (simp_all add: spawnTown_def haven_def wilds_def)
  have e: "onHasSpawnChange [spawnTown, haven, wilds] (region_id haven) True
       = [spawnTown\<lparr>hasSpawn := False\<rparr>, haven\<lparr>hasSpawn := True\<rparr>, wilds]"
    by (simp add: onHasSpawnChange_def updateRegion_def spawnTown_def haven_def wilds_def)
  show ?thesis
    using spawn_mutator_single [of "[spawnTown, haven, wilds]" haven "''r2''" False] d f e
    by simp
qed

end
